theory Spec2Isabelle
  imports Complex_Main
begin

section \<open>Hydra Racing: the simulation core of script.js\<close>

text \<open>
  The repository holds two copies of the engine: \<^verbatim>\<open>src/script.js\<close> (v2.0) and the
  extended copy \<^verbatim>\<open>src/unnamed/part_000\<close> (v3.0, which adds the Nitro power-up and
  cosmetic effects). The definitions without a suffix follow v2.0; a definition with the
  suffix \<open>_v3\<close> follows v3.0 where its code differs. Functions whose code is the same
  in both copies (up to sound, particles and DOM calls) are defined once.

  Modelling decisions, all stated here once:
  \<^item> A JavaScript number is an exact rational (\<open>rat\<close>); counters, scores and
    \<^verbatim>\<open>Date.now()\<close> milliseconds are integers (\<open>int\<close>). Rounding of IEEE doubles is
    not modelled. The literals 0.5, 0.15, 0.1, 0.0005 and 1.8 are the fractions they denote.
  \<^item> The global objects \<^verbatim>\<open>CONFIG\<close>, \<^verbatim>\<open>gameState\<close>, \<^verbatim>\<open>player\<close>, the entity arrays,
    \<^verbatim>\<open>inputState.targetLane\<close>, the canvas size and the two \<^verbatim>\<open>localStorage\<close> keys
    are the fields of one record \<open>world\<close>; every function takes the world and returns
    the updated one.
  \<^item> \<^verbatim>\<open>Date.now()\<close> is the parameter \<open>now\<close>; all reads inside one call of
    \<^verbatim>\<open>update\<close> see the same value. \<^verbatim>\<open>Math.random()\<close> is a parameter in \<open>[0, 1)\<close>.
  \<^item> Rendering, sound, toasts, DOM text, particles, stars, road markings, colours and the
    rotation or pulse of pickups are left out: they never feed back into the fields
    modelled here.
\<close>

subsection \<open>Data model\<close>

text \<open>The keys of \<^verbatim>\<open>POWER_UP_TYPES\<close>: four in v2.0, five in v3.0.\<close>

datatype powerUpType = SHIELD | MAGNET | SLOW_MO | DOUBLE_POINTS

datatype powerUpType_v3 = SHIELD_v3 | MAGNET_v3 | SLOW_MO_v3 | DOUBLE_POINTS_v3 | NITRO

text \<open>The fields of \<^verbatim>\<open>CONFIG\<close> that the simulation reads.\<close>

record config =
  lanes :: int
  laneWidth :: rat
  playerWidth :: rat
  playerHeight :: rat
  enemyWidth :: rat
  enemyHeight :: rat
  initialEnemySpeed :: rat
  coinSize :: rat
  coinValue :: int
  powerUpSize :: rat
  shieldDuration :: int
  magnetDuration :: int
  slowMoDuration :: int
  doublePointsDuration :: int
  nitroDuration :: int
  speedIncreaseRate :: rat
  comboTimeout :: int
  difficultyIncreaseInterval :: rat
  roadMarkingSpeed :: rat

definition CONFIG_v2 :: config where
  "CONFIG_v2 = \<lparr> lanes = 5, laneWidth = 0, playerWidth = 40, playerHeight = 75,
     enemyWidth = 40, enemyHeight = 75, initialEnemySpeed = 4,
     coinSize = 30, coinValue = 10, powerUpSize = 40,
     shieldDuration = 5000, magnetDuration = 7000, slowMoDuration = 5000,
     doublePointsDuration = 10000, nitroDuration = 0,
     speedIncreaseRate = 1 / 2000, comboTimeout = 2000,
     difficultyIncreaseInterval = 5000, roadMarkingSpeed = 5 \<rparr>"

definition CONFIG_v3 :: config where
  "CONFIG_v3 = \<lparr> lanes = 5, laneWidth = 0, playerWidth = 45, playerHeight = 85,
     enemyWidth = 45, enemyHeight = 85, initialEnemySpeed = 4,
     coinSize = 28, coinValue = 10, powerUpSize = 38,
     shieldDuration = 5000, magnetDuration = 7000, slowMoDuration = 5000,
     doublePointsDuration = 10000, nitroDuration = 3000,
     speedIncreaseRate = 1 / 2000, comboTimeout = 2000,
     difficultyIncreaseInterval = 5000, roadMarkingSpeed = 5 \<rparr>"

text \<open>
  \<^verbatim>\<open>gameState\<close>. The type parameter is the type of power-up keys. The field
  \<open>hasNitro\<close> exists in v3.0 only; no v2.0 function reads or writes it.
  \<open>activePowerUp\<close> is \<open>None\<close> for \<^verbatim>\<open>null\<close>.
\<close>

record 't gameState =
  isPlaying :: bool
  isPaused :: bool
  isGameOver :: bool
  score :: int
  topScore :: int
  coins :: int
  totalCoins :: int
  distance :: rat
  dodgedCars :: int
  combo :: int
  lastDodgeTime :: int
  currentSpeed :: rat
  difficultyLevel :: int
  hasShield :: bool
  hasMagnet :: bool
  hasSlowMo :: bool
  hasDoublePoints :: bool
  hasNitro :: bool
  activePowerUp :: "'t option"
  powerUpEndTime :: int

text \<open>Entities. The player is a \<open>car\<close>; a coin is a \<open>pickup\<close>.\<close>

record entity =
  x :: rat
  y :: rat
  lane :: int

record car = entity +
  width :: rat
  height :: rat

record enemy = car +
  speed :: rat
  passed :: bool

record pickup = entity +
  size :: rat

record 't powerUp = pickup +
  type :: 't

record 't world =
  CONFIG :: config
  gameState :: "'t gameState"
  nitroActive :: bool
  nitroEndTime :: int
  player :: car
  enemies :: "enemy list"
  coins :: "pickup list"
  powerUps :: "'t powerUp list"
  targetLane :: int
  canvasWidth :: rat
  canvasHeight :: rat
  hydraTopScore :: int
  hydraTotalCoins :: int

subsection \<open>Numbers\<close>

text \<open>
  The remainder operator \<^verbatim>\<open>a % b\<close> on numbers: \<open>a - b * trunc (a / b)\<close>, the
  quotient truncated toward zero, so the result has the sign of \<open>a\<close>; \<open>None\<close> is
  \<^verbatim>\<open>NaN\<close> (for \<open>b = 0\<close>), and every comparison with \<^verbatim>\<open>NaN\<close> is false.
\<close>

definition js_rem :: "rat \<Rightarrow> rat \<Rightarrow> rat option" where
  "js_rem a b = (if b = 0 then None
     else Some (a - b * of_int (if 0 \<le> a / b then \<lfloor>a / b\<rfloor> else \<lceil>a / b\<rceil>)))"

definition nan_less :: "rat option \<Rightarrow> rat \<Rightarrow> bool" where
  "nan_less a b = (case a of None \<Rightarrow> False | Some v \<Rightarrow> v < b)"

subsection \<open>Lane geometry and collisions\<close>

definition getLaneX :: "config \<Rightarrow> rat \<Rightarrow> rat" where
  "getLaneX cfg n = n * laneWidth cfg + (laneWidth cfg - playerWidth cfg) / 2"

definition checkCollision :: "'a car_scheme \<Rightarrow> 'b car_scheme \<Rightarrow> bool" where
  "checkCollision a b = (let padding = 10 in
     x a < x b + width b - padding \<and>
     x a + width a > x b + padding \<and>
     y a < y b + height b - padding \<and>
     y a + height a > y b + padding)"

definition checkCoinCollision :: "'a car_scheme \<Rightarrow> 'b pickup_scheme \<Rightarrow> bool" where
  "checkCoinCollision p coin = (let
     centerX = x coin + size coin / 2;
     centerY = y coin + size coin / 2;
     closestX = max (x p) (min centerX (x p + width p));
     closestY = max (y p) (min centerY (y p + height p));
     dx = centerX - closestX;
     dy = centerY - closestY
   in dx * dx + dy * dy < (size coin / 2) * (size coin / 2))"

text \<open>\<^verbatim>\<open>checkPowerUpCollision\<close> is the same code with \<^verbatim>\<open>powerUp\<close> for \<^verbatim>\<open>coin\<close>.\<close>

definition checkPowerUpCollision :: "'a car_scheme \<Rightarrow> 'b pickup_scheme \<Rightarrow> bool" where
  "checkPowerUpCollision p powerUp = (let
     centerX = x powerUp + size powerUp / 2;
     centerY = y powerUp + size powerUp / 2;
     closestX = max (x p) (min centerX (x p + width p));
     closestY = max (y p) (min centerY (y p + height p));
     dx = centerX - closestX;
     dy = centerY - closestY
   in dx * dx + dy * dy < (size powerUp / 2) * (size powerUp / 2))"

subsection \<open>Game controls\<close>

definition moveLeft :: "'t world \<Rightarrow> 't world" where
  "moveLeft w =
     (if \<not> isPlaying (gameState w) \<or> isPaused (gameState w) then w
      else if targetLane w > 0 then w\<lparr>targetLane := targetLane w - 1\<rparr>
      else w)"

definition moveRight :: "'t world \<Rightarrow> 't world" where
  "moveRight w =
     (if \<not> isPlaying (gameState w) \<or> isPaused (gameState w) then w
      else if targetLane w < lanes (CONFIG w) - 1 then w\<lparr>targetLane := targetLane w + 1\<rparr>
      else w)"

definition initPlayer :: "'t world \<Rightarrow> 't world" where
  "initPlayer w = w\<lparr>targetLane := 2,
     player := \<lparr> x = getLaneX (CONFIG w) 1, y = canvasHeight w - 150, lane = 1,
                 width = playerWidth (CONFIG w), height = playerHeight (CONFIG w) \<rparr>\<rparr>"

text \<open>
  \<^verbatim>\<open>startGame\<close> only schedules the countdown; \<open>startGame\<close> below is the callback that
  runs when the countdown ends, three seconds later, which is where the state changes.
\<close>

definition startGame :: "'t world \<Rightarrow> 't world" where
  "startGame w = w\<lparr>gameState :=
     (gameState w)\<lparr>isPlaying := True, isPaused := False, isGameOver := False\<rparr>\<rparr>"

definition pauseGame :: "'t world \<Rightarrow> 't world" where
  "pauseGame w = w\<lparr>gameState := (gameState w)\<lparr>isPaused := True\<rparr>\<rparr>"

definition resumeGame :: "'t world \<Rightarrow> 't world" where
  "resumeGame w = w\<lparr>gameState := (gameState w)\<lparr>isPaused := False\<rparr>\<rparr>"

definition gameOver :: "'t world \<Rightarrow> 't world" where
  "gameOver w = (let
     gs1 = (gameState w)\<lparr>isPlaying := False, isGameOver := True\<rparr>;
     isNewRecord = score gs1 > topScore gs1;
     w1 = (if isNewRecord
           then w\<lparr>gameState := gs1\<lparr>topScore := score gs1\<rparr>, hydraTopScore := score gs1\<rparr>
           else w\<lparr>gameState := gs1\<rparr>);
     total = totalCoins (gameState w1) + gameState.coins (gameState w1)
   in w1\<lparr>gameState := (gameState w1)\<lparr>totalCoins := total\<rparr>, hydraTotalCoins := total\<rparr>)"

definition restartGame :: "'t world \<Rightarrow> 't world" where
  "restartGame w = initPlayer
     (w\<lparr>gameState := (gameState w)\<lparr>score := 0, gameState.coins := 0, distance := 0,
           dodgedCars := 0, combo := 0, currentSpeed := 1, difficultyLevel := 1,
           isGameOver := False, isPlaying := False, isPaused := False,
           hasShield := False, hasMagnet := False, hasSlowMo := False,
           hasDoublePoints := False, activePowerUp := None\<rparr>,
         enemies := [], coins := [], powerUps := []\<rparr>)"

definition restartGame_v3 :: "'t world \<Rightarrow> 't world" where
  "restartGame_v3 w = initPlayer
     (w\<lparr>gameState := (gameState w)\<lparr>score := 0, gameState.coins := 0, distance := 0,
           dodgedCars := 0, combo := 0, currentSpeed := 1, difficultyLevel := 1,
           isGameOver := False, isPlaying := False, isPaused := False,
           hasShield := False, hasMagnet := False, hasSlowMo := False,
           hasDoublePoints := False, hasNitro := False, activePowerUp := None\<rparr>,
         enemies := [], coins := [], powerUps := [], nitroActive := False\<rparr>)"

definition resetTopScore :: "'t world \<Rightarrow> 't world" where
  "resetTopScore w = w\<lparr>gameState := (gameState w)\<lparr>topScore := 0\<rparr>, hydraTopScore := 0\<rparr>"

text \<open>
  \<^verbatim>\<open>togglePlayPause\<close>: when the game is not playing it calls \<^verbatim>\<open>startGame()\<close>, which
  changes nothing until the countdown ends.
\<close>

definition togglePlayPause :: "'t world \<Rightarrow> 't world" where
  "togglePlayPause w =
     (if isGameOver (gameState w) then restartGame w
      else if \<not> isPlaying (gameState w) then w
      else if isPaused (gameState w) then resumeGame w
      else pauseGame w)"

definition togglePlayPause_v3 :: "'t world \<Rightarrow> 't world" where
  "togglePlayPause_v3 w =
     (if isGameOver (gameState w) then restartGame_v3 w
      else if \<not> isPlaying (gameState w) then w
      else if isPaused (gameState w) then resumeGame w
      else pauseGame w)"

definition resizeCanvas :: "rat \<Rightarrow> rat \<Rightarrow> 't world \<Rightarrow> 't world" where
  "resizeCanvas cw ch w = (let
     w1 = w\<lparr>canvasWidth := cw, canvasHeight := ch,
            CONFIG := (CONFIG w)\<lparr>laneWidth := cw / of_int (lanes (CONFIG w))\<rparr>\<rparr>
   in w1\<lparr>player := (player w1)\<lparr>x := getLaneX (CONFIG w1) (of_int (targetLane w1))\<rparr>\<rparr>)"

subsection \<open>Spawners\<close>

text \<open>
  The argument \<open>r\<close> is the value of \<^verbatim>\<open>Math.random()\<close> that picks the lane; the colour
  draw is cosmetic. In \<open>spawnPowerUp\<close>, \<open>r0\<close> is the draw of the spawn chance and
  \<open>ty\<close> the key that the third draw selects among \<^verbatim>\<open>Object.keys(POWER_UP_TYPES)\<close>.
\<close>

definition spawnEnemy :: "rat \<Rightarrow> 't world \<Rightarrow> 't world" where
  "spawnEnemy r w =
     (if \<not> isPlaying (gameState w) \<or> isPaused (gameState w) then w
      else let
        l = \<lfloor>r * of_int (lanes (CONFIG w))\<rfloor>;
        minDistance = enemyHeight (CONFIG w) * 2;
        canSpawn = \<not> list_ex (\<lambda>e. lane e = l \<and> y e < minDistance) (enemies w)
      in if canSpawn
         then w\<lparr>enemies := enemies w @
                [\<lparr> x = getLaneX (CONFIG w) (of_int l), y = - enemyHeight (CONFIG w), lane = l,
                    width = enemyWidth (CONFIG w), height = enemyHeight (CONFIG w),
                    speed = initialEnemySpeed (CONFIG w)
                            + of_int (difficultyLevel (gameState w)) * (1 / 2),
                    passed = False \<rparr>]\<rparr>
         else w)"

definition spawnCoin :: "rat \<Rightarrow> 't world \<Rightarrow> 't world" where
  "spawnCoin r w =
     (if \<not> isPlaying (gameState w) \<or> isPaused (gameState w) then w
      else let
        l = \<lfloor>r * of_int (lanes (CONFIG w))\<rfloor>;
        isSafe = \<not> list_ex (\<lambda>e. lane e = l \<and> y e < coinSize (CONFIG w) * 3) (enemies w)
      in if isSafe
         then w\<lparr>coins := coins w @
                [\<lparr> x = getLaneX (CONFIG w) (of_int l), y = - coinSize (CONFIG w), lane = l,
                    size = coinSize (CONFIG w) \<rparr>]\<rparr>
         else w)"

definition spawnPowerUp :: "rat \<Rightarrow> rat \<Rightarrow> 't \<Rightarrow> 't world \<Rightarrow> 't world" where
  "spawnPowerUp r0 r ty w =
     (if \<not> isPlaying (gameState w) \<or> isPaused (gameState w) then w
      else if r0 > 1 / 2 then w
      else let l = \<lfloor>r * of_int (lanes (CONFIG w))\<rfloor>
      in w\<lparr>powerUps := powerUps w @
             [\<lparr> x = getLaneX (CONFIG w) (of_int l), y = - powerUpSize (CONFIG w), lane = l,
                 size = powerUpSize (CONFIG w), type = ty \<rparr>]\<rparr>)"

subsection \<open>Collection and scoring\<close>

definition collectCoin :: "'b pickup_scheme \<Rightarrow> 't world \<Rightarrow> 't world" where
  "collectCoin coin w = (let
     v = (if hasDoublePoints (gameState w) then coinValue (CONFIG w) * 2
          else coinValue (CONFIG w));
     gs1 = (gameState w)\<lparr>gameState.coins := gameState.coins (gameState w) + v\<rparr>
   in w\<lparr>gameState := gs1\<lparr>score := score gs1 + v * 10\<rparr>\<rparr>)"

definition deactivatePowerUp :: "'t world \<Rightarrow> 't world" where
  "deactivatePowerUp w = w\<lparr>gameState := (gameState w)\<lparr>hasShield := False,
     hasMagnet := False, hasSlowMo := False, hasDoublePoints := False,
     activePowerUp := None\<rparr>\<rparr>"

definition deactivatePowerUp_v3 :: "'t world \<Rightarrow> 't world" where
  "deactivatePowerUp_v3 w = w\<lparr>gameState := (gameState w)\<lparr>hasShield := False,
     hasMagnet := False, hasSlowMo := False, hasDoublePoints := False, hasNitro := False,
     activePowerUp := None\<rparr>, nitroActive := False\<rparr>"

definition collectPowerUp :: "int \<Rightarrow> powerUpType powerUp \<Rightarrow> powerUpType world \<Rightarrow> powerUpType world" where
  "collectPowerUp now powerUp w = (let
     ty = type powerUp;
     w1 = (if activePowerUp (gameState w) \<noteq> None then deactivatePowerUp w else w);
     gs1 = (gameState w1)\<lparr>activePowerUp := Some ty\<rparr>;
     gs2 = (case ty of
         SHIELD \<Rightarrow> gs1\<lparr>hasShield := True,
                      powerUpEndTime := now + shieldDuration (CONFIG w1)\<rparr>
       | MAGNET \<Rightarrow> gs1\<lparr>hasMagnet := True,
                      powerUpEndTime := now + magnetDuration (CONFIG w1)\<rparr>
       | SLOW_MO \<Rightarrow> gs1\<lparr>hasSlowMo := True,
                       powerUpEndTime := now + slowMoDuration (CONFIG w1)\<rparr>
       | DOUBLE_POINTS \<Rightarrow> gs1\<lparr>hasDoublePoints := True,
                             powerUpEndTime := now + doublePointsDuration (CONFIG w1)\<rparr>)
   in w1\<lparr>gameState := gs2\<rparr>)"

definition collectPowerUp_v3 :: "int \<Rightarrow> powerUpType_v3 powerUp \<Rightarrow> powerUpType_v3 world \<Rightarrow> powerUpType_v3 world" where
  "collectPowerUp_v3 now powerUp w = (let
     ty = type powerUp;
     w1 = (if activePowerUp (gameState w) \<noteq> None then deactivatePowerUp_v3 w else w);
     gs1 = (gameState w1)\<lparr>activePowerUp := Some ty\<rparr>
   in case ty of
         SHIELD_v3 \<Rightarrow> w1\<lparr>gameState := gs1\<lparr>hasShield := True,
                         powerUpEndTime := now + shieldDuration (CONFIG w1)\<rparr>\<rparr>
       | MAGNET_v3 \<Rightarrow> w1\<lparr>gameState := gs1\<lparr>hasMagnet := True,
                         powerUpEndTime := now + magnetDuration (CONFIG w1)\<rparr>\<rparr>
       | SLOW_MO_v3 \<Rightarrow> w1\<lparr>gameState := gs1\<lparr>hasSlowMo := True,
                          powerUpEndTime := now + slowMoDuration (CONFIG w1)\<rparr>\<rparr>
       | DOUBLE_POINTS_v3 \<Rightarrow> w1\<lparr>gameState := gs1\<lparr>hasDoublePoints := True,
                                powerUpEndTime := now + doublePointsDuration (CONFIG w1)\<rparr>\<rparr>
       | NITRO \<Rightarrow> w1\<lparr>gameState := gs1\<lparr>hasNitro := True,
                       powerUpEndTime := now + nitroDuration (CONFIG w1)\<rparr>,
                     nitroActive := True, nitroEndTime := now + nitroDuration (CONFIG w1)\<rparr>)"

definition handleDodge :: "int \<Rightarrow> 't world \<Rightarrow> 't world" where
  "handleDodge now w = (let
     gs1 = (if now - lastDodgeTime (gameState w) < comboTimeout (CONFIG w)
            then (gameState w)\<lparr>combo := combo (gameState w) + 1\<rparr>
            else (gameState w)\<lparr>combo := 1\<rparr>);
     gs2 = gs1\<lparr>lastDodgeTime := now\<rparr>;
     comboBonus = combo gs2 * 50;
     doubleMultiplier = (if hasDoublePoints gs2 then 2 else 1)
   in w\<lparr>gameState := gs2\<lparr>score := score gs2 + comboBonus * doubleMultiplier\<rparr>\<rparr>)"

subsection \<open>The per-frame update\<close>

text \<open>
  The three entity loops run from the last index down to 0 and splice removed elements
  out. In the model the first list holds the elements still to visit, last index first;
  \<open>kept\<close> holds the elements already visited that stay in the array, in array order.
  When \<^verbatim>\<open>updateEnemies\<close> returns early after \<^verbatim>\<open>gameOver()\<close>, the array holds the
  unvisited elements, the colliding enemy (already moved) and the kept ones.
\<close>

fun updateEnemies_loop :: "rat \<Rightarrow> int \<Rightarrow> enemy list \<Rightarrow> enemy list \<Rightarrow> 't world \<Rightarrow> 't world" where
  "updateEnemies_loop deltaSpeed now [] kept w = w\<lparr>enemies := kept\<rparr>"
| "updateEnemies_loop deltaSpeed now (e # rest) kept w = (let
     e1 = e\<lparr>y := y e + speed e * currentSpeed (gameState w) * deltaSpeed\<rparr>
   in if \<not> hasShield (gameState w) \<and> checkCollision (player w) e1
      then gameOver (w\<lparr>enemies := rev rest @ e1 # kept\<rparr>)
      else let
        dodged = (\<not> passed e1 \<and> y e1 > y (player w) + height (player w));
        e2 = (if dodged then e1\<lparr>passed := True\<rparr> else e1);
        w1 = (if dodged
              then handleDodge now (w\<lparr>gameState :=
                     (gameState w)\<lparr>dodgedCars := dodgedCars (gameState w) + 1\<rparr>\<rparr>)
              else w)
      in if y e2 > canvasHeight w1 + height e2
         then updateEnemies_loop deltaSpeed now rest kept w1
         else updateEnemies_loop deltaSpeed now rest (e2 # kept) w1)"

definition updateEnemies :: "rat \<Rightarrow> int \<Rightarrow> 't world \<Rightarrow> 't world" where
  "updateEnemies deltaSpeed now w = updateEnemies_loop deltaSpeed now (rev (enemies w)) [] w"

text \<open>
  The magnet test \<^verbatim>\<open>Math.sqrt(dx*dx + dy*dy) < magnetRange\<close> is written without the
  square root: inside the branch \<^verbatim>\<open>magnetRange\<close> is 150, and for a positive bound the
  two comparisons agree.
\<close>

fun updateCoins_loop :: "rat \<Rightarrow> pickup list \<Rightarrow> pickup list \<Rightarrow> 't world \<Rightarrow> 't world" where
  "updateCoins_loop deltaSpeed [] kept w = w\<lparr>coins := kept\<rparr>"
| "updateCoins_loop deltaSpeed (c # rest) kept w = (let
     magnetRange = (if hasMagnet (gameState w) then 150 else 0);
     c1 = c\<lparr>y := y c + roadMarkingSpeed (CONFIG w) * currentSpeed (gameState w) * deltaSpeed\<rparr>;
     c2 = (if hasMagnet (gameState w)
           then let dx = x (player w) - x c1; dy = y (player w) - y c1
                in if dx * dx + dy * dy < magnetRange * magnetRange
                   then c1\<lparr>x := x c1 + dx * (1 / 10), y := y c1 + dy * (1 / 10)\<rparr>
                   else c1
           else c1)
   in if checkCoinCollision (player w) c2
      then updateCoins_loop deltaSpeed rest kept (collectCoin c2 w)
      else if y c2 > canvasHeight w + size c2
      then updateCoins_loop deltaSpeed rest kept w
      else updateCoins_loop deltaSpeed rest (c2 # kept) w)"

definition updateCoins :: "rat \<Rightarrow> 't world \<Rightarrow> 't world" where
  "updateCoins deltaSpeed w = updateCoins_loop deltaSpeed (rev (coins w)) [] w"

text \<open>The power-up loop, with the version's \<^verbatim>\<open>collectPowerUp\<close> as a parameter.\<close>

fun updatePowerUps_loop :: "('t powerUp \<Rightarrow> 't world \<Rightarrow> 't world) \<Rightarrow> rat \<Rightarrow>
    't powerUp list \<Rightarrow> 't powerUp list \<Rightarrow> 't world \<Rightarrow> 't world" where
  "updatePowerUps_loop collect deltaSpeed [] kept w = w\<lparr>powerUps := kept\<rparr>"
| "updatePowerUps_loop collect deltaSpeed (p # rest) kept w = (let
     p1 = p\<lparr>y := y p + roadMarkingSpeed (CONFIG w) * currentSpeed (gameState w) * deltaSpeed\<rparr>
   in if checkPowerUpCollision (player w) p1
      then updatePowerUps_loop collect deltaSpeed rest kept (collect p1 w)
      else if y p1 > canvasHeight w + size p1
      then updatePowerUps_loop collect deltaSpeed rest kept w
      else updatePowerUps_loop collect deltaSpeed rest (p1 # kept) w)"

definition updatePowerUps :: "rat \<Rightarrow> int \<Rightarrow> powerUpType world \<Rightarrow> powerUpType world" where
  "updatePowerUps deltaSpeed now w =
     updatePowerUps_loop (collectPowerUp now) deltaSpeed (rev (powerUps w)) [] w"

definition updatePowerUps_v3 :: "rat \<Rightarrow> int \<Rightarrow> powerUpType_v3 world \<Rightarrow> powerUpType_v3 world" where
  "updatePowerUps_v3 deltaSpeed now w =
     updatePowerUps_loop (collectPowerUp_v3 now) deltaSpeed (rev (powerUps w)) [] w"

definition updatePowerUpTimers :: "int \<Rightarrow> 't world \<Rightarrow> 't world" where
  "updatePowerUpTimers now w =
     (if activePowerUp (gameState w) \<noteq> None \<and> now > powerUpEndTime (gameState w)
      then deactivatePowerUp w else w)"

definition updatePowerUpTimers_v3 :: "int \<Rightarrow> 't world \<Rightarrow> 't world" where
  "updatePowerUpTimers_v3 now w =
     (if activePowerUp (gameState w) \<noteq> None \<and> now > powerUpEndTime (gameState w)
      then deactivatePowerUp_v3 w else w)"

definition updateCombo :: "int \<Rightarrow> 't world \<Rightarrow> 't world" where
  "updateCombo now w =
     (if combo (gameState w) > 0 \<and> now - lastDodgeTime (gameState w) > comboTimeout (CONFIG w)
      then w\<lparr>gameState := (gameState w)\<lparr>combo := 0\<rparr>\<rparr> else w)"

definition update :: "int \<Rightarrow> powerUpType world \<Rightarrow> powerUpType world" where
  "update now w =
     (if \<not> isPlaying (gameState w) \<or> isPaused (gameState w) then w
      else let
        deltaSpeed = (if hasSlowMo (gameState w) then 1 / 2 else 1);
        w1 = w\<lparr>gameState := (gameState w)\<lparr>currentSpeed :=
               currentSpeed (gameState w) + speedIncreaseRate (CONFIG w)\<rparr>\<rparr>;
        w2 = w1\<lparr>gameState := (gameState w1)\<lparr>distance :=
               distance (gameState w1) + currentSpeed (gameState w1) * deltaSpeed\<rparr>\<rparr>;
        w3 = (if nan_less (js_rem (distance (gameState w2))
                                  (difficultyIncreaseInterval (CONFIG w2))) 10
              then w2\<lparr>gameState := (gameState w2)\<lparr>difficultyLevel :=
                     \<lfloor>distance (gameState w2) / difficultyIncreaseInterval (CONFIG w2)\<rfloor> + 1\<rparr>\<rparr>
              else w2);
        targetX = getLaneX (CONFIG w3) (of_int (targetLane w3));
        dx = targetX - x (player w3);
        w4 = w3\<lparr>player := (player w3)\<lparr>x := x (player w3) + dx * (3 / 20),
                                        lane := targetLane w3\<rparr>\<rparr>;
        w5 = updateEnemies deltaSpeed now w4;
        w6 = updateCoins deltaSpeed w5;
        w7 = updatePowerUps deltaSpeed now w6;
        w8 = updatePowerUpTimers now w7;
        w9 = updateCombo now w8
      in w9\<lparr>gameState := (gameState w9)\<lparr>score :=
              score (gameState w9) + \<lfloor>currentSpeed (gameState w9) * deltaSpeed\<rfloor>\<rparr>\<rparr>)"

definition update_v3 :: "int \<Rightarrow> powerUpType_v3 world \<Rightarrow> powerUpType_v3 world" where
  "update_v3 now w =
     (if \<not> isPlaying (gameState w) \<or> isPaused (gameState w) then w
      else let
        deltaSpeed = (if hasSlowMo (gameState w) then 1 / 2 else 1);
        nitroMultiplier = (if hasNitro (gameState w) then 9 / 5 else 1);
        w1 = w\<lparr>gameState := (gameState w)\<lparr>currentSpeed :=
               currentSpeed (gameState w) + speedIncreaseRate (CONFIG w)\<rparr>\<rparr>;
        w2 = w1\<lparr>gameState := (gameState w1)\<lparr>distance :=
               distance (gameState w1)
               + currentSpeed (gameState w1) * deltaSpeed * nitroMultiplier\<rparr>\<rparr>;
        w2n = (if hasNitro (gameState w2)
               then w2\<lparr>gameState := (gameState w2)\<lparr>score :=
                      score (gameState w2) + \<lfloor>10 * deltaSpeed\<rfloor>\<rparr>\<rparr>
               else w2);
        w3 = (if nan_less (js_rem (distance (gameState w2n))
                                  (difficultyIncreaseInterval (CONFIG w2n))) 10
              then w2n\<lparr>gameState := (gameState w2n)\<lparr>difficultyLevel :=
                     \<lfloor>distance (gameState w2n) / difficultyIncreaseInterval (CONFIG w2n)\<rfloor> + 1\<rparr>\<rparr>
              else w2n);
        targetX = getLaneX (CONFIG w3) (of_int (targetLane w3));
        dx = targetX - x (player w3);
        w4 = w3\<lparr>player := (player w3)\<lparr>x := x (player w3) + dx * (3 / 20),
                                        lane := targetLane w3\<rparr>\<rparr>;
        w5 = updateEnemies deltaSpeed now w4;
        w6 = updateCoins deltaSpeed w5;
        w7 = updatePowerUps_v3 deltaSpeed now w6;
        w8 = updatePowerUpTimers_v3 now w7;
        w9 = updateCombo now w8
      in w9\<lparr>gameState := (gameState w9)\<lparr>score :=
              score (gameState w9) + \<lfloor>currentSpeed (gameState w9) * deltaSpeed\<rfloor>\<rparr>\<rparr>)"

text \<open>
  v3.0 only: \<^verbatim>\<open>render\<close> calls \<^verbatim>\<open>updateVisualFX()\<close> before \<^verbatim>\<open>update()\<close>; of its
  effects only the expiry of \<^verbatim>\<open>visualFX.nitroActive\<close> touches a modelled field.
\<close>

definition updateVisualFX :: "int \<Rightarrow> 't world \<Rightarrow> 't world" where
  "updateVisualFX now w =
     (if nitroActive w \<and> now > nitroEndTime w then w\<lparr>nitroActive := False\<rparr> else w)"

subsection \<open>Runs\<close>

text \<open>
  The state after \<^verbatim>\<open>init()\<close>: the literal \<^verbatim>\<open>gameState\<close> with the three values read from
  \<^verbatim>\<open>localStorage\<close>, the canvas size taken by \<^verbatim>\<open>resizeCanvas\<close>, then \<^verbatim>\<open>initPlayer\<close>.
\<close>

definition init :: "config \<Rightarrow> rat \<Rightarrow> rat \<Rightarrow> int \<Rightarrow> int \<Rightarrow> int \<Rightarrow> 't world" where
  "init cfg cw ch best wallet lifetime = initPlayer
     \<lparr> CONFIG = cfg\<lparr>laneWidth := cw / of_int (lanes cfg)\<rparr>,
       gameState = \<lparr> isPlaying = False, isPaused = False, isGameOver = False, score = 0,
         topScore = best, coins = wallet, totalCoins = lifetime, distance = 0, dodgedCars = 0,
         combo = 0, lastDodgeTime = 0, currentSpeed = 1, difficultyLevel = 1,
         hasShield = False, hasMagnet = False, hasSlowMo = False, hasDoublePoints = False,
         hasNitro = False, activePowerUp = None, powerUpEndTime = 0 \<rparr>,
       nitroActive = False, nitroEndTime = 0,
       player = \<lparr> x = 0, y = 0, lane = 0, width = 0, height = 0 \<rparr>,
       enemies = [], coins = [], powerUps = [], targetLane = 1,
       canvasWidth = cw, canvasHeight = ch, hydraTopScore = best, hydraTotalCoins = lifetime \<rparr>"

text \<open>
  Everything that can happen between two frames: an animation frame at time \<open>now\<close>, the
  input handlers, the end of the countdown, the three spawn timers and a resize.
\<close>

datatype 't op =
    Frame int
  | MoveLeft
  | MoveRight
  | TogglePlayPause
  | CountdownDone
  | RestartGame
  | ResetTopScore
  | SpawnEnemy rat
  | SpawnCoin rat
  | SpawnPowerUp rat rat 't
  | ResizeCanvas rat rat

fun step :: "powerUpType op \<Rightarrow> powerUpType world \<Rightarrow> powerUpType world" where
  "step (Frame now) w = update now w"
| "step MoveLeft w = moveLeft w"
| "step MoveRight w = moveRight w"
| "step TogglePlayPause w = togglePlayPause w"
| "step CountdownDone w = startGame w"
| "step RestartGame w = restartGame w"
| "step ResetTopScore w = resetTopScore w"
| "step (SpawnEnemy r) w = spawnEnemy r w"
| "step (SpawnCoin r) w = spawnCoin r w"
| "step (SpawnPowerUp r0 r ty) w = spawnPowerUp r0 r ty w"
| "step (ResizeCanvas cw ch) w = resizeCanvas cw ch w"

fun step_v3 :: "powerUpType_v3 op \<Rightarrow> powerUpType_v3 world \<Rightarrow> powerUpType_v3 world" where
  "step_v3 (Frame now) w = update_v3 now (updateVisualFX now w)"
| "step_v3 MoveLeft w = moveLeft w"
| "step_v3 MoveRight w = moveRight w"
| "step_v3 TogglePlayPause w = togglePlayPause_v3 w"
| "step_v3 CountdownDone w = startGame w"
| "step_v3 RestartGame w = restartGame_v3 w"
| "step_v3 ResetTopScore w = resetTopScore w"
| "step_v3 (SpawnEnemy r) w = spawnEnemy r w"
| "step_v3 (SpawnCoin r) w = spawnCoin r w"
| "step_v3 (SpawnPowerUp r0 r ty) w = spawnPowerUp r0 r ty w"
| "step_v3 (ResizeCanvas cw ch) w = resizeCanvas cw ch w"

fun run :: "powerUpType op list \<Rightarrow> powerUpType world \<Rightarrow> powerUpType world" where
  "run [] w = w"
| "run (a # as) w = run as (step a w)"

fun run_v3 :: "powerUpType_v3 op list \<Rightarrow> powerUpType_v3 world \<Rightarrow> powerUpType_v3 world" where
  "run_v3 [] w = w"
| "run_v3 (a # as) w = run_v3 as (step_v3 a w)"

subsection \<open>Reference predicates and fixtures\<close>

text \<open>
  The collision rule as the specification words it: both rectangles are shrunk inward by
  \<open>pad\<close> on all four sides, and the shrunk rectangles overlap.
\<close>

definition spec_padded_overlap :: "rat \<Rightarrow> 'a car_scheme \<Rightarrow> 'b car_scheme \<Rightarrow> bool" where
  "spec_padded_overlap pad a b =
     (x a + pad < x b + width b - pad \<and> x b + pad < x a + width a - pad \<and>
      y a + pad < y b + height b - pad \<and> y b + pad < y a + height a - pad)"

text \<open>Concrete entities for the examples.\<close>

definition box :: "rat \<Rightarrow> rat \<Rightarrow> rat \<Rightarrow> rat \<Rightarrow> car" where
  "box bx by bw bh = \<lparr> x = bx, y = by, lane = 0, width = bw, height = bh \<rparr>"

definition coinAt :: "rat \<Rightarrow> rat \<Rightarrow> rat \<Rightarrow> pickup" where
  "coinAt cx cy cs = \<lparr> x = cx, y = cy, lane = 0, size = cs \<rparr>"

definition enemyAt :: "rat \<Rightarrow> rat \<Rightarrow> rat \<Rightarrow> rat \<Rightarrow> rat \<Rightarrow> enemy" where
  "enemyAt ex ey ew eh es =
     \<lparr> x = ex, y = ey, lane = 0, width = ew, height = eh, speed = es, passed = False \<rparr>"

definition powerUpAt :: "rat \<Rightarrow> rat \<Rightarrow> rat \<Rightarrow> 't \<Rightarrow> 't powerUp" where
  "powerUpAt ux uy us ty = \<lparr> x = ux, y = uy, lane = 0, size = us, type = ty \<rparr>"

text \<open>
  A run that has just started on a 400 by 600 canvas with nothing stored: \<^verbatim>\<open>init()\<close>,
  then the end of the countdown.
\<close>

definition started :: "powerUpType world" where
  "started = startGame (init CONFIG_v2 400 600 0 0 0)"

definition started_v3 :: "powerUpType_v3 world" where
  "started_v3 = startGame (init CONFIG_v3 400 600 0 0 0)"

subsection \<open>The parts of the update, named for the proofs\<close>

text \<open>
  \<open>update_clock\<close> is the head of \<^verbatim>\<open>update\<close> (speed, distance, difficulty level) and
  \<open>update_rest\<close> its remainder (player easing, the three entity loops, the two timers,
  the score), with the version's power-up loop and timer as parameters. The lemmas
  \<open>update_decomp\<close> and \<open>update_v3_decomp\<close> show that \<open>update\<close> and \<open>update_v3\<close> are
  exactly these parts in sequence.
\<close>

definition update_clock :: "'t world \<Rightarrow> 't world" where
  "update_clock w = (let
     deltaSpeed = (if hasSlowMo (gameState w) then 1 / 2 else 1);
     w1 = w\<lparr>gameState := (gameState w)\<lparr>currentSpeed :=
            currentSpeed (gameState w) + speedIncreaseRate (CONFIG w)\<rparr>\<rparr>;
     w2 = w1\<lparr>gameState := (gameState w1)\<lparr>distance :=
            distance (gameState w1) + currentSpeed (gameState w1) * deltaSpeed\<rparr>\<rparr>
   in if nan_less (js_rem (distance (gameState w2)) (difficultyIncreaseInterval (CONFIG w2))) 10
      then w2\<lparr>gameState := (gameState w2)\<lparr>difficultyLevel :=
             \<lfloor>distance (gameState w2) / difficultyIncreaseInterval (CONFIG w2)\<rfloor> + 1\<rparr>\<rparr>
      else w2)"

definition update_clock_v3 :: "'t world \<Rightarrow> 't world" where
  "update_clock_v3 w = (let
     deltaSpeed = (if hasSlowMo (gameState w) then 1 / 2 else 1);
     nitroMultiplier = (if hasNitro (gameState w) then 9 / 5 else 1);
     w1 = w\<lparr>gameState := (gameState w)\<lparr>currentSpeed :=
            currentSpeed (gameState w) + speedIncreaseRate (CONFIG w)\<rparr>\<rparr>;
     w2 = w1\<lparr>gameState := (gameState w1)\<lparr>distance :=
            distance (gameState w1)
            + currentSpeed (gameState w1) * deltaSpeed * nitroMultiplier\<rparr>\<rparr>;
     w2n = (if hasNitro (gameState w2)
            then w2\<lparr>gameState := (gameState w2)\<lparr>score :=
                   score (gameState w2) + \<lfloor>10 * deltaSpeed\<rfloor>\<rparr>\<rparr>
            else w2)
   in if nan_less (js_rem (distance (gameState w2n)) (difficultyIncreaseInterval (CONFIG w2n))) 10
      then w2n\<lparr>gameState := (gameState w2n)\<lparr>difficultyLevel :=
             \<lfloor>distance (gameState w2n) / difficultyIncreaseInterval (CONFIG w2n)\<rfloor> + 1\<rparr>\<rparr>
      else w2n)"

definition update_rest :: "(rat \<Rightarrow> int \<Rightarrow> 't world \<Rightarrow> 't world) \<Rightarrow> (int \<Rightarrow> 't world \<Rightarrow> 't world) \<Rightarrow>
    rat \<Rightarrow> int \<Rightarrow> 't world \<Rightarrow> 't world" where
  "update_rest pups timers deltaSpeed now w3 = (let
     targetX = getLaneX (CONFIG w3) (of_int (targetLane w3));
     dx = targetX - x (player w3);
     w4 = w3\<lparr>player := (player w3)\<lparr>x := x (player w3) + dx * (3 / 20),
                                     lane := targetLane w3\<rparr>\<rparr>;
     w5 = updateEnemies deltaSpeed now w4;
     w6 = updateCoins deltaSpeed w5;
     w7 = pups deltaSpeed now w6;
     w8 = timers now w7;
     w9 = updateCombo now w8
   in w9\<lparr>gameState := (gameState w9)\<lparr>score :=
           score (gameState w9) + \<lfloor>currentSpeed (gameState w9) * deltaSpeed\<rfloor>\<rparr>\<rparr>)"

subsection \<open>Predicates of the power-up state\<close>

text \<open>The power-up types whose flag is set, and the duration configured for a type.\<close>

definition activeTypes :: "powerUpType gameState \<Rightarrow> powerUpType list" where
  "activeTypes gs =
     (if hasShield gs then [SHIELD] else []) @ (if hasMagnet gs then [MAGNET] else []) @
     (if hasSlowMo gs then [SLOW_MO] else []) @
     (if hasDoublePoints gs then [DOUBLE_POINTS] else [])"

definition activeTypes_v3 :: "powerUpType_v3 gameState \<Rightarrow> powerUpType_v3 list" where
  "activeTypes_v3 gs =
     (if hasShield gs then [SHIELD_v3] else []) @ (if hasMagnet gs then [MAGNET_v3] else []) @
     (if hasSlowMo gs then [SLOW_MO_v3] else []) @
     (if hasDoublePoints gs then [DOUBLE_POINTS_v3] else []) @
     (if hasNitro gs then [NITRO] else [])"

text \<open>Each flag is set exactly when its type is the active one.\<close>

definition exclusive :: "powerUpType gameState \<Rightarrow> bool" where
  "exclusive gs =
     (hasShield gs = (activePowerUp gs = Some SHIELD) \<and>
      hasMagnet gs = (activePowerUp gs = Some MAGNET) \<and>
      hasSlowMo gs = (activePowerUp gs = Some SLOW_MO) \<and>
      hasDoublePoints gs = (activePowerUp gs = Some DOUBLE_POINTS))"

definition exclusive_v3 :: "powerUpType_v3 gameState \<Rightarrow> bool" where
  "exclusive_v3 gs =
     (hasShield gs = (activePowerUp gs = Some SHIELD_v3) \<and>
      hasMagnet gs = (activePowerUp gs = Some MAGNET_v3) \<and>
      hasSlowMo gs = (activePowerUp gs = Some SLOW_MO_v3) \<and>
      hasDoublePoints gs = (activePowerUp gs = Some DOUBLE_POINTS_v3) \<and>
      hasNitro gs = (activePowerUp gs = Some NITRO))"

definition typeDuration :: "config \<Rightarrow> powerUpType \<Rightarrow> int" where
  "typeDuration cfg ty = (case ty of
       SHIELD \<Rightarrow> shieldDuration cfg
     | MAGNET \<Rightarrow> magnetDuration cfg
     | SLOW_MO \<Rightarrow> slowMoDuration cfg
     | DOUBLE_POINTS \<Rightarrow> doublePointsDuration cfg)"

definition typeDuration_v3 :: "config \<Rightarrow> powerUpType_v3 \<Rightarrow> int" where
  "typeDuration_v3 cfg ty = (case ty of
       SHIELD_v3 \<Rightarrow> shieldDuration cfg
     | MAGNET_v3 \<Rightarrow> magnetDuration cfg
     | SLOW_MO_v3 \<Rightarrow> slowMoDuration cfg
     | DOUBLE_POINTS_v3 \<Rightarrow> doublePointsDuration cfg
     | NITRO \<Rightarrow> nitroDuration cfg)"

text \<open>
  The invariant of v3.0: the flags are exclusive, and \<^verbatim>\<open>visualFX.nitroActive\<close> is set only
  while \<open>hasNitro\<close> is.
\<close>

definition inv_v3 :: "powerUpType_v3 world \<Rightarrow> bool" where
  "inv_v3 w = (exclusive_v3 (gameState w) \<and> (hasNitro (gameState w) \<or> \<not> nitroActive w))"

text \<open>A started run with a shield collected at time 0, and one with Nitro (v3.0).\<close>

definition shielded :: "powerUpType world" where
  "shielded = collectPowerUp 0 (powerUpAt 100 460 40 SHIELD) started"

definition nitroed :: "powerUpType_v3 world" where
  "nitroed = collectPowerUp_v3 0 (powerUpAt 100 460 38 NITRO) started_v3"

subsection \<open>Scenarios of the combo and lane claims\<close>

text \<open>
  \<open>polls\<close> runs the per-frame combo check \<^verbatim>\<open>updateCombo\<close> at each of the given times.
  \<open>threeDodges\<close> is three calls of \<^verbatim>\<open>handleDodge\<close> at the times \<open>t1\<close>, \<open>t2\<close>, \<open>t3\<close>
  with the polls of the frames in between.
\<close>

fun polls :: "int list \<Rightarrow> 't world \<Rightarrow> 't world" where
  "polls [] w = w"
| "polls (u # us) w = polls us (updateCombo u w)"


text \<open>The target lane lies in \<open>[0, lanes - 1]\<close>.\<close>

definition laneOk :: "'t world \<Rightarrow> bool" where
  "laneOk w = (0 \<le> targetLane w \<and> targetLane w \<le> lanes (CONFIG w) - 1)"


subsection \<open>Predicates and scenarios of the difficulty and game-over claims\<close>










text \<open>
  A playing state in lane 2 with 50 points: an enemy that one more frame moves into
  contact with the player, and a coin on the player. The same for v3.0, with its sizes.
\<close>

definition crashWorld :: "powerUpType world" where
  "crashWorld = started
     \<lparr>gameState := (gameState started)\<lparr>score := 50\<rparr>,
      player := (player started)\<lparr>x := 180, lane := 2\<rparr>,
      enemies := [\<lparr> x = 180, y = 382, lane = 2, width = 40, height = 75,
                    speed = 9 / 2, passed = False \<rparr>],
      coins := [\<lparr> x = 180, y = 470, lane = 2, size = 30 \<rparr>]\<rparr>"

definition crashWorld_v3 :: "powerUpType_v3 world" where
  "crashWorld_v3 = started_v3
     \<lparr>gameState := (gameState started_v3)\<lparr>score := 50\<rparr>,
      player := (player started_v3)\<lparr>x := 355 / 2, lane := 2\<rparr>,
      enemies := [\<lparr> x = 355 / 2, y = 372, lane = 2, width = 45, height = 85,
                    speed = 9 / 2, passed = False \<rparr>],
      coins := [\<lparr> x = 355 / 2, y = 470, lane = 2, size = 28 \<rparr>]\<rparr>"

section \<open>Verified properties\<close>

subsection \<open>Lane geometry\<close>

text \<open>
  Claim C10. For a positive lane width, \<open>getLaneX\<close> is strictly increasing in the lane
  index: it preserves and reflects the order of lanes, so distinct lanes get distinct,
  ordered x-coordinates.
\<close>

theorem getLaneX_order:
  "0 < laneWidth cfg \<Longrightarrow> (getLaneX cfg a < getLaneX cfg b) = (a < b)"
  by (simp add: getLaneX_def)

theorem getLaneX_order_witness:
  "getLaneX (CONFIG_v2\<lparr>laneWidth := 80\<rparr>) 1 = 100 \<and>
   getLaneX (CONFIG_v2\<lparr>laneWidth := 80\<rparr>) 2 = 180 \<and>
   getLaneX (CONFIG_v2\<lparr>laneWidth := 80\<rparr>) 1 < getLaneX (CONFIG_v2\<lparr>laneWidth := 80\<rparr>) 2"
  using getLaneX_order [of "CONFIG_v2\<lparr>laneWidth := 80\<rparr>" 1 2]
  by (simp add: getLaneX_def CONFIG_v2_def)

subsection \<open>Enemy collision\<close>

text \<open>
  Claim C4, as stated, fails: \<open>checkCollision\<close> subtracts the 10 px padding from the far
  edges of \<open>b\<close> and adds it to the near edges of \<open>b\<close> only; \<open>a\<close> is compared unshrunk. A
  player at x = 0 and an enemy at x = 25, both 40 wide, collide for the code, while the
  two rectangles shrunk by 10 px each are 5 px apart.
\<close>

theorem checkCollision_counterexample:
  "checkCollision (box 0 0 40 75) (box 25 0 40 75) \<and>
   \<not> spec_padded_overlap 10 (box 0 0 40 75) (box 25 0 40 75)"
  by (simp add: checkCollision_def spec_padded_overlap_def box_def)

text \<open>
  Claim C4, amended. \<open>checkCollision a b\<close> holds exactly when the two rectangles, each
  shrunk inward by 5 px (half the padding) on all four sides, overlap, that is when the
  boxes overlap by more than 10 px on both axes. Two identical boxes wider and taller
  than 10 px (so also than 20 px) collide; boxes that are 10 px or more apart on an axis
  do not.
\<close>

theorem checkCollision_padding:
  "(checkCollision a b \<longleftrightarrow> spec_padded_overlap 5 a b) \<and>
   (x a = x b \<and> y a = y b \<and> width a = width b \<and> height a = height b \<and>
      10 < width a \<and> 10 < height a \<longrightarrow> checkCollision a b) \<and>
   (x a + width a + 10 \<le> x b \<or> x b + width b + 10 \<le> x a \<or>
    y a + height a + 10 \<le> y b \<or> y b + height b + 10 \<le> y a \<longrightarrow> \<not> checkCollision a b)"
  by (auto simp add: checkCollision_def spec_padded_overlap_def Let_def)

theorem checkCollision_padding_witness:
  "checkCollision (box 0 0 40 75) (box 0 0 40 75) \<and>
   \<not> checkCollision (box 0 0 40 75) (box 50 85 40 75)"
proof -
  have "checkCollision (box 0 0 40 75) (box 0 0 40 75)"
    using checkCollision_padding [of "box 0 0 40 75" "box 0 0 40 75",
        THEN conjunct2, THEN conjunct1]
    by (simp add: box_def)
  moreover have "\<not> checkCollision (box 0 0 40 75) (box 50 85 40 75)"
    using checkCollision_padding [of "box 0 0 40 75" "box 50 85 40 75",
        THEN conjunct2, THEN conjunct2]
    by (simp add: box_def)
  ultimately show ?thesis by simp
qed

subsection \<open>Coin pickup\<close>

lemma clamp_closest:
  fixes c lo hi p :: rat
  assumes "lo \<le> p" "p \<le> hi"
  shows "(c - max lo (min c hi)) * (c - max lo (min c hi)) \<le> (c - p) * (c - p)"
proof -
  have "\<bar>c - max lo (min c hi)\<bar> \<le> \<bar>c - p\<bar>"
    using assms by (auto simp: max_def min_def abs_if)
  then have "\<bar>c - max lo (min c hi)\<bar> * \<bar>c - max lo (min c hi)\<bar> \<le> \<bar>c - p\<bar> * \<bar>c - p\<bar>"
    by (intro mult_mono) auto
  then show ?thesis by simp
qed

lemma square_gt:
  fixes r d :: rat
  assumes "0 \<le> r" "r < \<bar>d\<bar>"
  shows "r * r < d * d"
proof -
  have "r * r < \<bar>d\<bar> * \<bar>d\<bar>" using assms by (intro mult_strict_mono') auto
  then show ?thesis by simp
qed

lemma far_not_less:
  fixes r dx dy :: rat
  assumes "0 \<le> r" "r < \<bar>dx\<bar> \<or> r < \<bar>dy\<bar>"
  shows "\<not> dx * dx + dy * dy < r * r"
proof -
  have a: "0 \<le> dx * dx" "0 \<le> dy * dy" by simp_all
  from assms(2) have "r * r < dx * dx \<or> r * r < dy * dy"
    using square_gt[OF assms(1)] by blast
  with a show ?thesis by linarith
qed

text \<open>The clamped point is a point of the player rectangle nearest to the coin centre.\<close>

lemma checkCoinCollision_iff_disc_meets_rect:
  assumes "0 \<le> width p" "0 \<le> height p"
  shows "(checkCoinCollision p c \<longleftrightarrow>
           (\<exists>px py. x p \<le> px \<and> px \<le> x p + width p \<and> y p \<le> py \<and> py \<le> y p + height p \<and>
              (x c + size c / 2 - px) * (x c + size c / 2 - px)
              + (y c + size c / 2 - py) * (y c + size c / 2 - py)
              < (size c / 2) * (size c / 2)))"
proof
  assume "checkCoinCollision p c"
  then show "\<exists>px py. x p \<le> px \<and> px \<le> x p + width p \<and> y p \<le> py \<and> py \<le> y p + height p \<and>
              (x c + size c / 2 - px) * (x c + size c / 2 - px)
              + (y c + size c / 2 - py) * (y c + size c / 2 - py)
              < (size c / 2) * (size c / 2)"
    using assms unfolding checkCoinCollision_def Let_def
    by (intro exI[of _ "max (x p) (min (x c + size c / 2) (x p + width p))"]
              exI[of _ "max (y p) (min (y c + size c / 2) (y p + height p))"]) auto
next
  assume "\<exists>px py. x p \<le> px \<and> px \<le> x p + width p \<and> y p \<le> py \<and> py \<le> y p + height p \<and>
              (x c + size c / 2 - px) * (x c + size c / 2 - px)
              + (y c + size c / 2 - py) * (y c + size c / 2 - py)
              < (size c / 2) * (size c / 2)"
  then obtain px py where h: "x p \<le> px" "px \<le> x p + width p"
      "y p \<le> py" "py \<le> y p + height p"
      "(x c + size c / 2 - px) * (x c + size c / 2 - px)
        + (y c + size c / 2 - py) * (y c + size c / 2 - py)
        < (size c / 2) * (size c / 2)"
    by blast
  from clamp_closest[OF h(1,2), of "x c + size c / 2"]
       clamp_closest[OF h(3,4), of "y c + size c / 2"] h(5)
  show "checkCoinCollision p c"
    unfolding checkCoinCollision_def Let_def by linarith
qed

lemma checkCoinCollision_centered:
  assumes "0 \<le> width p" "0 \<le> height p" "0 < size c"
    "x c + size c / 2 = x p + width p / 2" "y c + size c / 2 = y p + height p / 2"
  shows "checkCoinCollision p c"
  using assms unfolding checkCoinCollision_def Let_def
  by (simp add: max_def min_def)

lemma checkCoinCollision_outside:
  assumes "0 \<le> width p" "0 \<le> height p" "0 < size c" "0 < eps"
    "x p + width p + (size c / 2 + eps) \<le> x c + size c / 2 \<or>
     x c + size c / 2 \<le> x p - (size c / 2 + eps) \<or>
     y p + height p + (size c / 2 + eps) \<le> y c + size c / 2 \<or>
     y c + size c / 2 \<le> y p - (size c / 2 + eps)"
  shows "\<not> checkCoinCollision p c"
proof -
  let ?dx = "x c + size c / 2 - max (x p) (min (x c + size c / 2) (x p + width p))"
  let ?dy = "y c + size c / 2 - max (y p) (min (y c + size c / 2) (y p + height p))"
  have "size c / 2 < \<bar>?dx\<bar> \<or> size c / 2 < \<bar>?dy\<bar>"
    using assms by (auto simp: max_def min_def abs_if)
  moreover have "0 \<le> size c / 2" using assms(3) by simp
  ultimately have "\<not> ?dx * ?dx + ?dy * ?dy < (size c / 2) * (size c / 2)"
    by (rule far_not_less[rotated])
  then show ?thesis unfolding checkCoinCollision_def Let_def by simp
qed

text \<open>
  Claim C7. For a player rectangle (width and height not negative) and a coin of
  positive size: \<open>checkCoinCollision\<close> holds exactly when some point of the player
  rectangle is at squared distance less than \<open>(size/2)\<^sup>2\<close> from the coin centre (the
  clamped point is a nearest one); a coin whose centre is the centre of the player's box
  is collected; a coin whose centre is \<open>size/2 + eps\<close> or more beyond an edge of the
  player, \<open>eps > 0\<close>, is not.
\<close>

theorem checkCoinCollision_circle_rect:
  assumes "0 \<le> width p" "0 \<le> height p" "0 < size c"
  shows "(checkCoinCollision p c \<longleftrightarrow>
           (\<exists>px py. x p \<le> px \<and> px \<le> x p + width p \<and> y p \<le> py \<and> py \<le> y p + height p \<and>
              (x c + size c / 2 - px) * (x c + size c / 2 - px)
              + (y c + size c / 2 - py) * (y c + size c / 2 - py)
              < (size c / 2) * (size c / 2))) \<and>
         (x c + size c / 2 = x p + width p / 2 \<and> y c + size c / 2 = y p + height p / 2
            \<longrightarrow> checkCoinCollision p c) \<and>
         (0 < eps \<and>
          (x p + width p + (size c / 2 + eps) \<le> x c + size c / 2 \<or>
           x c + size c / 2 \<le> x p - (size c / 2 + eps) \<or>
           y p + height p + (size c / 2 + eps) \<le> y c + size c / 2 \<or>
           y c + size c / 2 \<le> y p - (size c / 2 + eps))
            \<longrightarrow> \<not> checkCoinCollision p c)"
  using checkCoinCollision_iff_disc_meets_rect[OF assms(1,2)]
        checkCoinCollision_centered[OF assms] checkCoinCollision_outside[OF assms]
  by blast

theorem checkCoinCollision_circle_rect_witness:
  "checkCoinCollision (box 100 450 40 75) (coinAt 105 (945 / 2) 30) \<and>
   \<not> checkCoinCollision (box 100 450 40 75) (coinAt 141 (945 / 2) 30)"
proof -
  have p: "0 \<le> width (box 100 450 40 75)" "0 \<le> height (box 100 450 40 75)"
    by (simp_all add: box_def)
  have c1: "0 < size (coinAt 105 (945 / 2) 30)" and c2: "0 < size (coinAt 141 (945 / 2) 30)"
    by (simp_all add: coinAt_def)
  have "checkCoinCollision (box 100 450 40 75) (coinAt 105 (945 / 2) 30)"
    using checkCoinCollision_circle_rect [OF p c1, of 1, THEN conjunct2, THEN conjunct1]
    by (simp add: box_def coinAt_def)
  moreover have "\<not> checkCoinCollision (box 100 450 40 75) (coinAt 141 (945 / 2) 30)"
    using checkCoinCollision_circle_rect [OF p c2, of 1, THEN conjunct2, THEN conjunct2]
    by (simp add: box_def coinAt_def)
  ultimately show ?thesis by simp
qed

subsection \<open>The update, phase by phase\<close>

lemma update_decomp:
  "update now w =
     (if \<not> isPlaying (gameState w) \<or> isPaused (gameState w) then w
      else update_rest updatePowerUps updatePowerUpTimers
             (if hasSlowMo (gameState w) then 1 / 2 else 1) now (update_clock w))"
  unfolding update_def update_rest_def update_clock_def Let_def by (rule refl)

lemma update_v3_decomp:
  "update_v3 now w =
     (if \<not> isPlaying (gameState w) \<or> isPaused (gameState w) then w
      else update_rest updatePowerUps_v3 updatePowerUpTimers_v3
             (if hasSlowMo (gameState w) then 1 / 2 else 1) now (update_clock_v3 w))"
  unfolding update_v3_def update_rest_def update_clock_v3_def Let_def by (rule refl)

lemma updateEnemies_preserves:
  assumes enemies: "\<And>w v. P w \<Longrightarrow> P (w\<lparr>enemies := v\<rparr>)"
    and over: "\<And>w. P w \<Longrightarrow> P (gameOver w)"
    and dodged: "\<And>w. P w \<Longrightarrow>
       P (w\<lparr>gameState := (gameState w)\<lparr>dodgedCars := dodgedCars (gameState w) + 1\<rparr>\<rparr>)"
    and dodge: "\<And>w. P w \<Longrightarrow> P (handleDodge now w)"
    and start: "P w"
  shows "P (updateEnemies d now w)"
proof -
  have "P w \<Longrightarrow> P (updateEnemies_loop d now es kept w)" for es kept w
  proof (induction es arbitrary: kept w)
    case Nil
    then show ?case by (simp add: enemies)
  next
    case (Cons e es)
    have a: "P (gameOver (w\<lparr>enemies := v\<rparr>))" for v
      by (intro over enemies Cons.prems)
    have b: "P (handleDodge now (w\<lparr>gameState :=
                 (gameState w)\<lparr>dodgedCars := dodgedCars (gameState w) + 1\<rparr>\<rparr>))"
      by (intro dodge dodged Cons.prems)
    show ?case
      unfolding updateEnemies_loop.simps Let_def
      by (intro a b Cons.IH Cons.prems if_split[where P = P, THEN iffD2] conjI impI)
  qed
  then show ?thesis unfolding updateEnemies_def using start by blast
qed

lemma updateCoins_preserves:
  assumes coins: "\<And>w v. P w \<Longrightarrow> P (w\<lparr>coins := v\<rparr>)"
    and coin: "\<And>w c. P w \<Longrightarrow> P (collectCoin (c::pickup) w)"
    and start: "P w"
  shows "P (updateCoins d w)"
proof -
  have "P w \<Longrightarrow> P (updateCoins_loop d cs kept w)" for cs kept w
  proof (induction cs arbitrary: kept w)
    case Nil
    then show ?case by (simp add: coins)
  next
    case (Cons c cs)
    show ?case
      unfolding updateCoins_loop.simps Let_def
      by (intro coin Cons.IH Cons.prems if_split[where P = P, THEN iffD2] conjI impI)
  qed
  then show ?thesis unfolding updateCoins_def using start by blast
qed

lemma updatePowerUps_loop_preserves:
  assumes powerUps: "\<And>w v. P w \<Longrightarrow> P (w\<lparr>powerUps := v\<rparr>)"
    and pu: "\<And>w p. P w \<Longrightarrow> P (collect p w)"
  shows "P w \<Longrightarrow> P (updatePowerUps_loop collect d ps kept w)"
proof (induction ps arbitrary: kept w)
  case Nil
  then show ?case by (simp add: powerUps)
next
  case (Cons p ps)
  show ?case
    unfolding updatePowerUps_loop.simps Let_def
    by (intro pu Cons.IH Cons.prems if_split[where P = P, THEN iffD2] conjI impI)
qed

lemma update_rest_preserves:
  assumes player: "\<And>w v. P w \<Longrightarrow> P (w\<lparr>player := v\<rparr>)"
    and enemies: "\<And>w v. P w \<Longrightarrow> P (w\<lparr>enemies := v\<rparr>)"
    and coins: "\<And>w v. P w \<Longrightarrow> P (w\<lparr>coins := v\<rparr>)"
    and over: "\<And>w. P w \<Longrightarrow> P (gameOver w)"
    and dodged: "\<And>w. P w \<Longrightarrow>
       P (w\<lparr>gameState := (gameState w)\<lparr>dodgedCars := dodgedCars (gameState w) + 1\<rparr>\<rparr>)"
    and dodge: "\<And>w. P w \<Longrightarrow> P (handleDodge now w)"
    and coin: "\<And>w c. P w \<Longrightarrow> P (collectCoin (c::pickup) w)"
    and pups: "\<And>w. P w \<Longrightarrow> P (pups d now w)"
    and timers: "\<And>w. P w \<Longrightarrow> P (timers now w)"
    and combo: "\<And>w. P w \<Longrightarrow> P (w\<lparr>gameState := (gameState w)\<lparr>combo := 0\<rparr>\<rparr>)"
    and score: "\<And>w k. P w \<Longrightarrow>
       P (w\<lparr>gameState := (gameState w)\<lparr>score := score (gameState w) + k\<rparr>\<rparr>)"
    and start: "P w"
  shows "P (update_rest pups timers d now w)"
proof -
  let ?w4 = "w\<lparr>player := (player w)\<lparr>x := x (player w)
      + (getLaneX (CONFIG w) (of_int (targetLane w)) - x (player w)) * (3 / 20),
      lane := targetLane w\<rparr>\<rparr>"
  let ?w5 = "updateEnemies d now ?w4"
  let ?w6 = "updateCoins d ?w5"
  let ?w7 = "pups d now ?w6"
  let ?w8 = "timers now ?w7"
  have en: "P v \<Longrightarrow> P (updateEnemies d now v)" for v
    by (rule updateEnemies_preserves[where P = P, OF enemies over dodged dodge])
  have co: "P v \<Longrightarrow> P (updateCoins d v)" for v
    by (rule updateCoins_preserves[where P = P, OF coins coin])
  have cb: "P v \<Longrightarrow> P (updateCombo now v)" for v
    unfolding updateCombo_def by (simp add: combo)
  have "P ?w4" using start by (rule player)
  then have "P ?w5" by (rule en)
  then have "P ?w6" by (rule co)
  then have "P ?w7" by (rule pups)
  then have "P ?w8" by (rule timers)
  then have "P (updateCombo now ?w8)" by (rule cb)
  then show ?thesis unfolding update_rest_def Let_def by (rule score)
qed

text \<open>The same for the whole frame of each version.\<close>

lemma update_preserves:
  assumes clock: "\<And>w. P w \<Longrightarrow> P (update_clock w)"
    and player: "\<And>w v. P w \<Longrightarrow> P (w\<lparr>player := v\<rparr>)"
    and enemies: "\<And>w v. P w \<Longrightarrow> P (w\<lparr>enemies := v\<rparr>)"
    and coins: "\<And>w v. P w \<Longrightarrow> P (w\<lparr>coins := v\<rparr>)"
    and powerUps: "\<And>w v. P w \<Longrightarrow> P (w\<lparr>powerUps := v\<rparr>)"
    and over: "\<And>w. P w \<Longrightarrow> P (gameOver w)"
    and dodged: "\<And>w. P w \<Longrightarrow>
       P (w\<lparr>gameState := (gameState w)\<lparr>dodgedCars := dodgedCars (gameState w) + 1\<rparr>\<rparr>)"
    and dodge: "\<And>w. P w \<Longrightarrow> P (handleDodge now w)"
    and coin: "\<And>w c. P w \<Longrightarrow> P (collectCoin (c::pickup) w)"
    and pu: "\<And>w p. P w \<Longrightarrow> P (collectPowerUp now p w)"
    and deact: "\<And>w. P w \<Longrightarrow> P (deactivatePowerUp w)"
    and combo: "\<And>w. P w \<Longrightarrow> P (w\<lparr>gameState := (gameState w)\<lparr>combo := 0\<rparr>\<rparr>)"
    and score: "\<And>w k. P w \<Longrightarrow>
       P (w\<lparr>gameState := (gameState w)\<lparr>score := score (gameState w) + k\<rparr>\<rparr>)"
    and start: "P w"
  shows "P (update now w)"
proof -
  have pups: "P v \<Longrightarrow> P (updatePowerUps d now v)" for v d
    unfolding updatePowerUps_def
    by (rule updatePowerUps_loop_preserves[where P = P, OF powerUps pu])
  have timers: "P v \<Longrightarrow> P (updatePowerUpTimers now v)" for v
    unfolding updatePowerUpTimers_def by (simp add: deact)
  have "P (update_rest updatePowerUps updatePowerUpTimers d now (update_clock w))" for d
    by (rule update_rest_preserves[where P = P and pups = updatePowerUps
          and timers = updatePowerUpTimers and d = d and now = now,
          OF player enemies coins over dodged dodge coin pups timers combo score
          clock[OF start]])
  then show ?thesis by (simp add: update_decomp start)
qed

lemma update_v3_preserves:
  assumes clock: "\<And>w. P w \<Longrightarrow> P (update_clock_v3 w)"
    and player: "\<And>w v. P w \<Longrightarrow> P (w\<lparr>player := v\<rparr>)"
    and enemies: "\<And>w v. P w \<Longrightarrow> P (w\<lparr>enemies := v\<rparr>)"
    and coins: "\<And>w v. P w \<Longrightarrow> P (w\<lparr>coins := v\<rparr>)"
    and powerUps: "\<And>w v. P w \<Longrightarrow> P (w\<lparr>powerUps := v\<rparr>)"
    and over: "\<And>w. P w \<Longrightarrow> P (gameOver w)"
    and dodged: "\<And>w. P w \<Longrightarrow>
       P (w\<lparr>gameState := (gameState w)\<lparr>dodgedCars := dodgedCars (gameState w) + 1\<rparr>\<rparr>)"
    and dodge: "\<And>w. P w \<Longrightarrow> P (handleDodge now w)"
    and coin: "\<And>w c. P w \<Longrightarrow> P (collectCoin (c::pickup) w)"
    and pu: "\<And>w p. P w \<Longrightarrow> P (collectPowerUp_v3 now p w)"
    and deact: "\<And>w. P w \<Longrightarrow> P (deactivatePowerUp_v3 w)"
    and combo: "\<And>w. P w \<Longrightarrow> P (w\<lparr>gameState := (gameState w)\<lparr>combo := 0\<rparr>\<rparr>)"
    and score: "\<And>w k. P w \<Longrightarrow>
       P (w\<lparr>gameState := (gameState w)\<lparr>score := score (gameState w) + k\<rparr>\<rparr>)"
    and start: "P w"
  shows "P (update_v3 now w)"
proof -
  have pups: "P v \<Longrightarrow> P (updatePowerUps_v3 d now v)" for v d
    unfolding updatePowerUps_v3_def
    by (rule updatePowerUps_loop_preserves[where P = P, OF powerUps pu])
  have timers: "P v \<Longrightarrow> P (updatePowerUpTimers_v3 now v)" for v
    unfolding updatePowerUpTimers_v3_def by (simp add: deact)
  have "P (update_rest updatePowerUps_v3 updatePowerUpTimers_v3 d now (update_clock_v3 w))" for d
    by (rule update_rest_preserves[where P = P and pups = updatePowerUps_v3
          and timers = updatePowerUpTimers_v3 and d = d and now = now,
          OF player enemies coins over dodged dodge coin pups timers combo score
          clock[OF start]])
  then show ?thesis by (simp add: update_v3_decomp start)
qed

lemmas prim_defs = gameOver_def handleDodge_def collectCoin_def deactivatePowerUp_def
  deactivatePowerUp_v3_def update_clock_def update_clock_v3_def Let_def

lemmas op_defs = moveLeft_def moveRight_def togglePlayPause_def togglePlayPause_v3_def
  restartGame_def restartGame_v3_def initPlayer_def pauseGame_def resumeGame_def
  startGame_def resetTopScore_def spawnEnemy_def spawnCoin_def spawnPowerUp_def
  resizeCanvas_def updateVisualFX_def Let_def

subsection \<open>Power-ups\<close>

lemma exclusive_activeTypes:
  "exclusive gs \<longleftrightarrow>
     activeTypes gs = (case activePowerUp gs of None \<Rightarrow> [] | Some ty \<Rightarrow> [ty])"
proof (cases "activePowerUp gs")
  case None
  then show ?thesis by (auto simp: exclusive_def activeTypes_def split: if_splits)
next
  case (Some ty)
  then show ?thesis by (cases ty) (auto simp: exclusive_def activeTypes_def split: if_splits)
qed

lemma exclusive_v3_activeTypes:
  "exclusive_v3 gs \<longleftrightarrow>
     activeTypes_v3 gs = (case activePowerUp gs of None \<Rightarrow> [] | Some ty \<Rightarrow> [ty])"
proof (cases "activePowerUp gs")
  case None
  then show ?thesis by (auto simp: exclusive_v3_def activeTypes_v3_def split: if_splits)
next
  case (Some ty)
  then show ?thesis
    by (cases ty) (auto simp: exclusive_v3_def activeTypes_v3_def split: if_splits)
qed

lemma collectPowerUp_exclusive:
  assumes "activePowerUp (gameState w) \<noteq> None \<or> exclusive (gameState w)"
  shows "exclusive (gameState (collectPowerUp now p w)) \<and>
         activePowerUp (gameState (collectPowerUp now p w)) = Some (type p)"
proof (cases "activePowerUp (gameState w)")
  case None
  with assms have "exclusive (gameState w)" by simp
  with None show ?thesis
    by (cases "type p") (simp_all add: collectPowerUp_def exclusive_def Let_def)
next
  case (Some a)
  then show ?thesis
    by (cases "type p")
       (simp_all add: collectPowerUp_def deactivatePowerUp_def exclusive_def Let_def)
qed

lemma collectPowerUp_v3_exclusive:
  assumes "activePowerUp (gameState w) \<noteq> None \<or> exclusive_v3 (gameState w)"
  shows "exclusive_v3 (gameState (collectPowerUp_v3 now p w)) \<and>
         activePowerUp (gameState (collectPowerUp_v3 now p w)) = Some (type p)"
proof (cases "activePowerUp (gameState w)")
  case None
  with assms have "exclusive_v3 (gameState w)" by simp
  with None show ?thesis
    by (cases "type p") (simp_all add: collectPowerUp_v3_def exclusive_v3_def Let_def)
next
  case (Some a)
  then show ?thesis
    by (cases "type p")
       (simp_all add: collectPowerUp_v3_def deactivatePowerUp_v3_def exclusive_v3_def Let_def)
qed

lemma collectPowerUp_v3_nitroActive:
  assumes "activePowerUp (gameState w) \<noteq> None \<or> \<not> nitroActive w"
  shows "nitroActive (collectPowerUp_v3 now p w) = (type p = NITRO)"
proof (cases "activePowerUp (gameState w)")
  case None
  with assms have "\<not> nitroActive w" by simp
  with None show ?thesis
    by (cases "type p") (simp_all add: collectPowerUp_v3_def Let_def)
next
  case (Some a)
  then show ?thesis
    by (cases "type p") (simp_all add: collectPowerUp_v3_def deactivatePowerUp_v3_def Let_def)
qed

lemma exclusive_update:
  "exclusive (gameState w) \<Longrightarrow> exclusive (gameState (update now w))"
proof (rule update_preserves[where P = "\<lambda>w. exclusive (gameState w)"], goal_cases)
  case (10 w p)
  then show ?case using collectPowerUp_exclusive[of w now p] by simp
qed (simp_all add: exclusive_def prim_defs)

lemma exclusive_v3_update:
  "exclusive_v3 (gameState w) \<Longrightarrow> exclusive_v3 (gameState (update_v3 now w))"
proof (rule update_v3_preserves[where P = "\<lambda>w. exclusive_v3 (gameState w)"], goal_cases)
  case (10 w p)
  then show ?case using collectPowerUp_v3_exclusive[of w now p] by simp
qed (simp_all add: exclusive_v3_def prim_defs)

lemma collectPowerUp_v3_nitro:
  assumes "hasNitro (gameState w) \<or> \<not> nitroActive w"
  shows "hasNitro (gameState (collectPowerUp_v3 now p w)) \<or>
         \<not> nitroActive (collectPowerUp_v3 now p w)"
  using assms
  by (cases "type p"; cases "activePowerUp (gameState w)")
     (simp_all add: collectPowerUp_v3_def deactivatePowerUp_v3_def Let_def)

lemma nitro_update:
  "hasNitro (gameState w) \<or> \<not> nitroActive w \<Longrightarrow>
   hasNitro (gameState (update_v3 now w)) \<or> \<not> nitroActive (update_v3 now w)"
proof (rule update_v3_preserves[where P = "\<lambda>w. hasNitro (gameState w) \<or> \<not> nitroActive w"],
    goal_cases)
  case (10 w p)
  then show ?case using collectPowerUp_v3_nitro[of w now p] by simp
qed (auto simp: prim_defs)

lemma inv_v3_update:
  "inv_v3 w \<Longrightarrow> inv_v3 (update_v3 now w)"
  unfolding inv_v3_def using exclusive_v3_update nitro_update by blast

lemma exclusive_step:
  "exclusive (gameState w) \<Longrightarrow> exclusive (gameState (step a w))"
proof (cases a)
  case (Frame now)
  assume "exclusive (gameState w)"
  then show ?thesis using Frame by (simp add: exclusive_update)
qed (simp_all add: exclusive_def op_defs)

lemma exclusive_v3_step:
  assumes "exclusive_v3 (gameState w)"
  shows "exclusive_v3 (gameState (step_v3 a w))"
proof (cases a)
  case (Frame now)
  from assms have "exclusive_v3 (gameState (updateVisualFX now w))"
    by (simp add: updateVisualFX_def)
  then show ?thesis using Frame by (simp add: exclusive_v3_update)
qed (use assms in \<open>simp_all add: exclusive_v3_def op_defs\<close>)

lemma nitro_step:
  assumes "hasNitro (gameState w) \<or> \<not> nitroActive w"
  shows "hasNitro (gameState (step_v3 a w)) \<or> \<not> nitroActive (step_v3 a w)"
proof (cases a)
  case (Frame now)
  from assms have "hasNitro (gameState (updateVisualFX now w)) \<or>
      \<not> nitroActive (updateVisualFX now w)"
    by (auto simp: updateVisualFX_def)
  then show ?thesis using Frame nitro_update by simp
qed (use assms in \<open>auto simp: op_defs\<close>)

lemma inv_v3_step:
  "inv_v3 w \<Longrightarrow> inv_v3 (step_v3 a w)"
  unfolding inv_v3_def using exclusive_v3_step nitro_step by blast

lemma exclusive_run:
  "exclusive (gameState w) \<Longrightarrow> exclusive (gameState (run ops w))"
  by (induction ops arbitrary: w) (simp_all add: exclusive_step)

lemma inv_v3_run:
  "inv_v3 w \<Longrightarrow> inv_v3 (run_v3 ops w)"
  by (induction ops arbitrary: w) (simp_all add: inv_v3_step)

lemma exclusive_init: "exclusive (gameState (init cfg cw ch b c t))"
  by (simp add: init_def initPlayer_def exclusive_def)

lemma inv_v3_init: "inv_v3 (init cfg cw ch b c t)"
  by (simp add: init_def initPlayer_def inv_v3_def exclusive_v3_def)


text \<open>
  Claim C2. Whenever some power-up type is active, collecting a power-up of type \<open>B\<close>
  leaves exactly \<open>B\<close>'s flag set (in v3.0 also \<open>nitroActive\<close> exactly for Nitro) and
  \<open>activePowerUp = B\<close>. In every state reached from \<^verbatim>\<open>init()\<close> by any sequence of frames,
  inputs and timer events, the types whose flag is set are exactly the active type, if
  there is one, and none otherwise: at most one type is ever active. Both engine copies.
\<close>

theorem powerUp_exclusive:
  "(activePowerUp (gameState w) \<noteq> None \<longrightarrow>
      activeTypes (gameState (collectPowerUp now p w)) = [type p] \<and>
      activePowerUp (gameState (collectPowerUp now p w)) = Some (type p)) \<and>
   (activePowerUp (gameState v) \<noteq> None \<longrightarrow>
      activeTypes_v3 (gameState (collectPowerUp_v3 now q v)) = [type q] \<and>
      activePowerUp (gameState (collectPowerUp_v3 now q v)) = Some (type q) \<and>
      nitroActive (collectPowerUp_v3 now q v) = (type q = NITRO)) \<and>
   activeTypes (gameState (run ops (init cfg cw ch b c t))) =
     (case activePowerUp (gameState (run ops (init cfg cw ch b c t))) of
        None \<Rightarrow> [] | Some ty \<Rightarrow> [ty]) \<and>
   activeTypes_v3 (gameState (run_v3 ops3 (init cfg cw ch b c t))) =
     (case activePowerUp (gameState (run_v3 ops3 (init cfg cw ch b c t))) of
        None \<Rightarrow> [] | Some ty \<Rightarrow> [ty])"
proof -
  have r2: "exclusive (gameState (run ops (init cfg cw ch b c t)))"
    by (rule exclusive_run[OF exclusive_init])
  have r3: "exclusive_v3 (gameState (run_v3 ops3 (init cfg cw ch b c t)))"
    using inv_v3_run[OF inv_v3_init, of ops3 cfg cw ch b c t] by (simp add: inv_v3_def)
  show ?thesis
    using collectPowerUp_exclusive[of w now p] collectPowerUp_v3_exclusive[of v now q]
      collectPowerUp_v3_nitroActive[of v now q] r2 r3
    by (simp add: exclusive_activeTypes exclusive_v3_activeTypes)
qed

theorem powerUp_exclusive_witness:
  "activePowerUp (gameState shielded) = Some SHIELD \<and>
   activeTypes (gameState (collectPowerUp 1000 (powerUpAt 100 460 40 MAGNET) shielded)) = [MAGNET] \<and>
   activePowerUp (gameState (collectPowerUp 1000 (powerUpAt 100 460 40 MAGNET) shielded)) = Some MAGNET \<and>
   activePowerUp (gameState nitroed) = Some NITRO \<and>
   activeTypes_v3 (gameState (collectPowerUp_v3 1000 (powerUpAt 100 460 38 SHIELD_v3) nitroed)) = [SHIELD_v3] \<and>
   \<not> nitroActive (collectPowerUp_v3 1000 (powerUpAt 100 460 38 SHIELD_v3) nitroed)"
proof -
  have a: "activePowerUp (gameState shielded) = Some SHIELD"
    by (simp add: shielded_def collectPowerUp_def powerUpAt_def Let_def)
  have b: "activePowerUp (gameState nitroed) = Some NITRO"
    by (simp add: nitroed_def collectPowerUp_v3_def powerUpAt_def Let_def)
  show ?thesis
    using a b powerUp_exclusive [of shielded 1000 "powerUpAt 100 460 40 MAGNET"
        nitroed "powerUpAt 100 460 38 SHIELD_v3" "[]" CONFIG_v2 400 600 0 0 0 "[]"]
    by (simp add: powerUpAt_def)
qed

text \<open>
  Claim C3, as stated, fails: \<^verbatim>\<open>collectPowerUp\<close> assigns \<^verbatim>\<open>powerUpEndTime\<close> in every
  case of its switch, whatever was active. A shield picked up at time 0 expires at 5000;
  a second shield picked up at time 1000 moves the expiry to 6000.
\<close>

theorem collectPowerUp_repickup_counterexample:
  "activePowerUp (gameState shielded) = Some SHIELD \<and>
   powerUpEndTime (gameState shielded) = 5000 \<and>
   powerUpEndTime (gameState (collectPowerUp 1000 (powerUpAt 100 460 40 SHIELD) shielded)) = 6000 \<and>
   powerUpEndTime (gameState (collectPowerUp 1000 (powerUpAt 100 460 40 SHIELD) shielded))
     \<noteq> powerUpEndTime (gameState shielded)"
  by (simp add: shielded_def started_def startGame_def init_def initPlayer_def CONFIG_v2_def
        collectPowerUp_def deactivatePowerUp_def powerUpAt_def Let_def)

text \<open>
  Claim C3, amended. Collecting a power-up of type \<open>T\<close> at time \<open>now\<close>, whether or not
  \<open>T\<close> is already active, sets the expiry to \<open>now\<close> plus the duration of \<open>T\<close> and the
  active type to \<open>T\<close>: the timer restarts; the time that was left is not added to it.
\<close>

theorem collectPowerUp_restarts_timer:
  "powerUpEndTime (gameState (collectPowerUp now p w)) =
     now + typeDuration (CONFIG w) (type p) \<and>
   activePowerUp (gameState (collectPowerUp now p w)) = Some (type p) \<and>
   powerUpEndTime (gameState (collectPowerUp_v3 now q v)) =
     now + typeDuration_v3 (CONFIG v) (type q) \<and>
   activePowerUp (gameState (collectPowerUp_v3 now q v)) = Some (type q)"
proof -
  have "powerUpEndTime (gameState (collectPowerUp now p w)) =
          now + typeDuration (CONFIG w) (type p) \<and>
        activePowerUp (gameState (collectPowerUp now p w)) = Some (type p)"
    by (cases "type p")
       (simp_all add: collectPowerUp_def deactivatePowerUp_def typeDuration_def Let_def)
  moreover have "powerUpEndTime (gameState (collectPowerUp_v3 now q v)) =
          now + typeDuration_v3 (CONFIG v) (type q) \<and>
        activePowerUp (gameState (collectPowerUp_v3 now q v)) = Some (type q)"
    by (cases "type q")
       (simp_all add: collectPowerUp_v3_def deactivatePowerUp_v3_def typeDuration_v3_def Let_def)
  ultimately show ?thesis by simp
qed

theorem collectPowerUp_restarts_timer_witness:
  "powerUpEndTime (gameState (collectPowerUp 1000 (powerUpAt 100 460 40 SHIELD) shielded)) = 6000 \<and>
   powerUpEndTime (gameState (collectPowerUp_v3 1000 (powerUpAt 100 460 38 NITRO) nitroed)) = 4000"
  using collectPowerUp_restarts_timer [of 1000 "powerUpAt 100 460 40 SHIELD" shielded
      "powerUpAt 100 460 38 NITRO" nitroed]
  by (simp add: shielded_def nitroed_def started_def started_v3_def startGame_def init_def
        initPlayer_def CONFIG_v2_def CONFIG_v3_def collectPowerUp_def collectPowerUp_v3_def
        deactivatePowerUp_def deactivatePowerUp_v3_def powerUpAt_def typeDuration_def
        typeDuration_v3_def Let_def)

subsection \<open>What collecting a power-up leaves alone\<close>

lemma collectPowerUp_frame [simp]:
  "CONFIG (collectPowerUp now p w) = CONFIG w"
  "targetLane (collectPowerUp now p w) = targetLane w"
  "player (collectPowerUp now p w) = player w"
  "canvasHeight (collectPowerUp now p w) = canvasHeight w"
  "currentSpeed (gameState (collectPowerUp now p w)) = currentSpeed (gameState w)"
  "distance (gameState (collectPowerUp now p w)) = distance (gameState w)"
  "difficultyLevel (gameState (collectPowerUp now p w)) = difficultyLevel (gameState w)"
  "combo (gameState (collectPowerUp now p w)) = combo (gameState w)"
  "lastDodgeTime (gameState (collectPowerUp now p w)) = lastDodgeTime (gameState w)"
  "score (gameState (collectPowerUp now p w)) = score (gameState w)"
  "isPlaying (gameState (collectPowerUp now p w)) = isPlaying (gameState w)"
  "isPaused (gameState (collectPowerUp now p w)) = isPaused (gameState w)"
  "isGameOver (gameState (collectPowerUp now p w)) = isGameOver (gameState w)"
  by (cases "type p"; simp add: collectPowerUp_def deactivatePowerUp_def Let_def)+

lemma collectPowerUp_v3_frame [simp]:
  "CONFIG (collectPowerUp_v3 now p w) = CONFIG w"
  "targetLane (collectPowerUp_v3 now p w) = targetLane w"
  "player (collectPowerUp_v3 now p w) = player w"
  "canvasHeight (collectPowerUp_v3 now p w) = canvasHeight w"
  "currentSpeed (gameState (collectPowerUp_v3 now p w)) = currentSpeed (gameState w)"
  "distance (gameState (collectPowerUp_v3 now p w)) = distance (gameState w)"
  "difficultyLevel (gameState (collectPowerUp_v3 now p w)) = difficultyLevel (gameState w)"
  "combo (gameState (collectPowerUp_v3 now p w)) = combo (gameState w)"
  "lastDodgeTime (gameState (collectPowerUp_v3 now p w)) = lastDodgeTime (gameState w)"
  "score (gameState (collectPowerUp_v3 now p w)) = score (gameState w)"
  "isPlaying (gameState (collectPowerUp_v3 now p w)) = isPlaying (gameState w)"
  "isPaused (gameState (collectPowerUp_v3 now p w)) = isPaused (gameState w)"
  "isGameOver (gameState (collectPowerUp_v3 now p w)) = isGameOver (gameState w)"
  by (cases "type p"; simp add: collectPowerUp_v3_def deactivatePowerUp_v3_def Let_def)+



subsection \<open>Combo\<close>


lemma polls_fields [simp]:
  "CONFIG (polls us w) = CONFIG w"
  "lastDodgeTime (gameState (polls us w)) = lastDodgeTime (gameState w)"
  "score (gameState (polls us w)) = score (gameState w)"
  "hasDoublePoints (gameState (polls us w)) = hasDoublePoints (gameState w)"
  by (induction us arbitrary: w; simp add: updateCombo_def)+



lemma handleDodge_late:
  assumes "comboTimeout (CONFIG w) \<le> now - lastDodgeTime (gameState w)"
  shows "handleDodge now w = w\<lparr>gameState := (gameState w)\<lparr>combo := 1,
           lastDodgeTime := now,
           score := score (gameState w) + 50 *
                      (if hasDoublePoints (gameState w) then 2 else 1)\<rparr>\<rparr>"
  using assms by (simp add: handleDodge_def Let_def)








subsection \<open>Lanes\<close>

lemma update_lane_frame:
  "CONFIG (update now w) = CONFIG w \<and> targetLane (update now w) = targetLane w"
  by (rule update_preserves[where P = "\<lambda>v. CONFIG v = CONFIG w \<and> targetLane v = targetLane w"])
     (simp_all add: prim_defs)

lemma update_v3_lane_frame:
  "CONFIG (update_v3 now w) = CONFIG w \<and> targetLane (update_v3 now w) = targetLane w"
  by (rule update_v3_preserves[where P = "\<lambda>v. CONFIG v = CONFIG w \<and> targetLane v = targetLane w"])
     (simp_all add: prim_defs)

lemma shifts_run:
  "laneOk w \<Longrightarrow> set ops \<subseteq> {MoveLeft, MoveRight} \<Longrightarrow>
   laneOk (run ops w) \<and> lanes (CONFIG (run ops w)) = lanes (CONFIG w)"
proof (induction ops arbitrary: w)
  case Nil
  then show ?case by simp
next
  case (Cons a ops)
  from Cons.prems have a: "a = MoveLeft \<or> a = MoveRight" by auto
  then have "laneOk (step a w) \<and> lanes (CONFIG (step a w)) = lanes (CONFIG w)"
    using Cons.prems(1) by (auto simp: laneOk_def moveLeft_def moveRight_def)
  then show ?case using Cons.IH[of "step a w"] Cons.prems(2) by simp
qed

lemma shifts_run_v3:
  "laneOk w \<Longrightarrow> set ops \<subseteq> {MoveLeft, MoveRight} \<Longrightarrow>
   laneOk (run_v3 ops w) \<and> lanes (CONFIG (run_v3 ops w)) = lanes (CONFIG w)"
proof (induction ops arbitrary: w)
  case Nil
  then show ?case by simp
next
  case (Cons a ops)
  from Cons.prems have a: "a = MoveLeft \<or> a = MoveRight" by auto
  then have "laneOk (step_v3 a w) \<and> lanes (CONFIG (step_v3 a w)) = lanes (CONFIG w)"
    using Cons.prems(1) by (auto simp: laneOk_def moveLeft_def moveRight_def)
  then show ?case using Cons.IH[of "step_v3 a w"] Cons.prems(2) by simp
qed

lemma lane_step:
  assumes "3 \<le> lanes (CONFIG w)" "laneOk w"
  shows "lanes (CONFIG (step a w)) = lanes (CONFIG w) \<and> laneOk (step a w)"
proof (cases a)
  case (Frame now)
  then show ?thesis using assms update_lane_frame[of now w] by (simp add: laneOk_def)
qed (use assms in \<open>auto simp: laneOk_def op_defs\<close>)

lemma lane_step_v3:
  assumes "3 \<le> lanes (CONFIG w)" "laneOk w"
  shows "lanes (CONFIG (step_v3 a w)) = lanes (CONFIG w) \<and> laneOk (step_v3 a w)"
proof (cases a)
  case (Frame now)
  then show ?thesis
    using assms update_v3_lane_frame[of now "updateVisualFX now w"]
    by (simp add: laneOk_def updateVisualFX_def)
qed (use assms in \<open>auto simp: laneOk_def op_defs\<close>)

lemma lane_run:
  "3 \<le> lanes (CONFIG w) \<Longrightarrow> laneOk w \<Longrightarrow>
   lanes (CONFIG (run ops w)) = lanes (CONFIG w) \<and> laneOk (run ops w)"
proof (induction ops arbitrary: w)
  case Nil
  then show ?case by simp
next
  case (Cons a ops)
  from lane_step[OF Cons.prems, of a] Cons.prems Cons.IH[of "step a w"]
  show ?case by simp
qed

lemma lane_run_v3:
  "3 \<le> lanes (CONFIG w) \<Longrightarrow> laneOk w \<Longrightarrow>
   lanes (CONFIG (run_v3 ops w)) = lanes (CONFIG w) \<and> laneOk (run_v3 ops w)"
proof (induction ops arbitrary: w)
  case Nil
  then show ?case by simp
next
  case (Cons a ops)
  from lane_step_v3[OF Cons.prems, of a] Cons.prems Cons.IH[of "step_v3 a w"]
  show ?case by simp
qed

lemma lanes_init [simp]: "lanes (CONFIG (init cfg cw ch b c t)) = lanes cfg"
  by (simp add: init_def initPlayer_def)

lemma lane_init: "3 \<le> lanes cfg \<Longrightarrow> laneOk (init cfg cw ch b c t)"
  by (simp add: init_def initPlayer_def laneOk_def)

text \<open>
  Claim C8. From a state whose target lane is in \<open>[0, lanes - 1]\<close>, every sequence of
  left and right shifts keeps it there; from \<^verbatim>\<open>init()\<close> (with at least three lanes, the
  code has five) so does every sequence of frames, inputs and timer events. A shift is
  a no-op, leaving the whole state unchanged, when the game is not playing or is paused.
  Both engine copies.
\<close>

theorem targetLane_clamped:
  "(laneOk w \<and> set ops \<subseteq> {MoveLeft, MoveRight} \<longrightarrow>
      0 \<le> targetLane (run ops w) \<and> targetLane (run ops w) \<le> lanes (CONFIG w) - 1) \<and>
   (laneOk v \<and> set ops3 \<subseteq> {MoveLeft, MoveRight} \<longrightarrow>
      0 \<le> targetLane (run_v3 ops3 v) \<and> targetLane (run_v3 ops3 v) \<le> lanes (CONFIG v) - 1) \<and>
   (3 \<le> lanes cfg \<longrightarrow>
      0 \<le> targetLane (run anyOps (init cfg cw ch b c t)) \<and>
      targetLane (run anyOps (init cfg cw ch b c t)) \<le> lanes cfg - 1 \<and>
      0 \<le> targetLane (run_v3 anyOps3 (init cfg cw ch b c t)) \<and>
      targetLane (run_v3 anyOps3 (init cfg cw ch b c t)) \<le> lanes cfg - 1) \<and>
   (\<not> isPlaying (gameState u) \<or> isPaused (gameState u) \<longrightarrow> moveLeft u = u \<and> moveRight u = u)"
proof -
  have 1: "laneOk w \<and> set ops \<subseteq> {MoveLeft, MoveRight} \<longrightarrow>
      0 \<le> targetLane (run ops w) \<and> targetLane (run ops w) \<le> lanes (CONFIG w) - 1"
    using shifts_run[of w ops] by (auto simp: laneOk_def)
  have 2: "laneOk v \<and> set ops3 \<subseteq> {MoveLeft, MoveRight} \<longrightarrow>
      0 \<le> targetLane (run_v3 ops3 v) \<and> targetLane (run_v3 ops3 v) \<le> lanes (CONFIG v) - 1"
    using shifts_run_v3[of v ops3] by (auto simp: laneOk_def)
  have 34: "0 \<le> targetLane (run anyOps (init cfg cw ch b c t)) \<and>
      targetLane (run anyOps (init cfg cw ch b c t)) \<le> lanes cfg - 1 \<and>
      0 \<le> targetLane (run_v3 anyOps3 (init cfg cw ch b c t)) \<and>
      targetLane (run_v3 anyOps3 (init cfg cw ch b c t)) \<le> lanes cfg - 1" if "3 \<le> lanes cfg"
  proof -
    have i2: "laneOk (init cfg cw ch b c t :: powerUpType world)"
      and i3: "laneOk (init cfg cw ch b c t :: powerUpType_v3 world)"
      using that by (rule lane_init)+
    have g2: "3 \<le> lanes (CONFIG (init cfg cw ch b c t :: powerUpType world))"
      and g3: "3 \<le> lanes (CONFIG (init cfg cw ch b c t :: powerUpType_v3 world))"
      using that by simp_all
    from lane_run[OF g2 i2, of anyOps] lane_run_v3[OF g3 i3, of anyOps3]
    show ?thesis unfolding laneOk_def by simp
  qed
  have 5: "\<not> isPlaying (gameState u) \<or> isPaused (gameState u) \<longrightarrow>
      moveLeft u = u \<and> moveRight u = u"
    by (auto simp: moveLeft_def moveRight_def)
  from 1 2 34 5 show ?thesis by blast
qed


theorem targetLane_clamped_witness:
  "targetLane (run [MoveRight, MoveRight, MoveRight] started) = 4 \<and>
   targetLane (run [MoveLeft, MoveLeft, MoveLeft] started) = 0 \<and>
   targetLane (run [MoveRight, MoveRight, MoveRight] started) \<le> lanes (CONFIG started) - 1 \<and>
   moveLeft (pauseGame started) = pauseGame started"
proof -
  have l: "laneOk started"
    by (simp add: laneOk_def started_def startGame_def init_def initPlayer_def CONFIG_v2_def)
  have p: "isPaused (gameState (pauseGame started))" by (simp add: pauseGame_def)
  have e: "targetLane (run [MoveRight, MoveRight, MoveRight] started) = 4"
    "targetLane (run [MoveLeft, MoveLeft, MoveLeft] started) = 0"
    by (simp_all add: started_def startGame_def init_def initPlayer_def CONFIG_v2_def
          moveLeft_def moveRight_def)
  from targetLane_clamped [of started "[MoveRight, MoveRight, MoveRight]" started_v3 "[]"
      CONFIG_v2 "[]" 400 600 0 0 0 "[]" "pauseGame started"] l p e
  show ?thesis by simp
qed



subsection \<open>Speed\<close>

lemma update_speed:
  assumes "0 \<le> speedIncreaseRate (CONFIG w)"
  shows "speedIncreaseRate (CONFIG (update now w)) = speedIncreaseRate (CONFIG w) \<and>
         currentSpeed (gameState w) \<le> currentSpeed (gameState (update now w))"
  by (rule update_preserves[where P = "\<lambda>v. speedIncreaseRate (CONFIG v) = speedIncreaseRate (CONFIG w) \<and>
        currentSpeed (gameState w) \<le> currentSpeed (gameState v)"])
     (use assms in \<open>simp_all add: prim_defs\<close>)

lemma update_v3_speed:
  assumes "0 \<le> speedIncreaseRate (CONFIG w)"
  shows "speedIncreaseRate (CONFIG (update_v3 now w)) = speedIncreaseRate (CONFIG w) \<and>
         currentSpeed (gameState w) \<le> currentSpeed (gameState (update_v3 now w))"
  by (rule update_v3_preserves[where P = "\<lambda>v. speedIncreaseRate (CONFIG v) = speedIncreaseRate (CONFIG w) \<and>
        currentSpeed (gameState w) \<le> currentSpeed (gameState v)"])
     (use assms in \<open>simp_all add: prim_defs\<close>)

lemma step_speed:
  assumes "0 \<le> speedIncreaseRate (CONFIG w)"
    and "a \<noteq> RestartGame" and "\<not> (a = TogglePlayPause \<and> isGameOver (gameState w))"
  shows "speedIncreaseRate (CONFIG (step a w)) = speedIncreaseRate (CONFIG w) \<and>
         currentSpeed (gameState w) \<le> currentSpeed (gameState (step a w))"
proof (cases a)
  case (Frame now)
  then show ?thesis using update_speed[OF assms(1), of now] by simp
qed (use assms in \<open>auto simp: op_defs\<close>)

lemma step_v3_speed:
  assumes "0 \<le> speedIncreaseRate (CONFIG w)"
    and "a \<noteq> RestartGame" and "\<not> (a = TogglePlayPause \<and> isGameOver (gameState w))"
  shows "speedIncreaseRate (CONFIG (step_v3 a w)) = speedIncreaseRate (CONFIG w) \<and>
         currentSpeed (gameState w) \<le> currentSpeed (gameState (step_v3 a w))"
proof (cases a)
  case (Frame now)
  have "speedIncreaseRate (CONFIG (updateVisualFX now w)) = speedIncreaseRate (CONFIG w)"
    "currentSpeed (gameState (updateVisualFX now w)) = currentSpeed (gameState w)"
    by (simp_all add: updateVisualFX_def)
  then show ?thesis
    using Frame update_v3_speed[of "updateVisualFX now w" now] assms(1) by simp
qed (use assms in \<open>auto simp: op_defs\<close>)

lemma step_speed_ge1:
  assumes "0 \<le> speedIncreaseRate (CONFIG w)" "1 \<le> currentSpeed (gameState w)"
  shows "speedIncreaseRate (CONFIG (step a w)) = speedIncreaseRate (CONFIG w) \<and>
         1 \<le> currentSpeed (gameState (step a w))"
proof (cases "a = RestartGame \<or> (a = TogglePlayPause \<and> isGameOver (gameState w))")
  case True
  then show ?thesis
    by (auto simp: togglePlayPause_def restartGame_def initPlayer_def)
next
  case False
  then show ?thesis using step_speed[OF assms(1), of a] assms(2) by auto
qed

lemma step_v3_speed_ge1:
  assumes "0 \<le> speedIncreaseRate (CONFIG w)" "1 \<le> currentSpeed (gameState w)"
  shows "speedIncreaseRate (CONFIG (step_v3 a w)) = speedIncreaseRate (CONFIG w) \<and>
         1 \<le> currentSpeed (gameState (step_v3 a w))"
proof (cases "a = RestartGame \<or> (a = TogglePlayPause \<and> isGameOver (gameState w))")
  case True
  then show ?thesis
    by (auto simp: togglePlayPause_v3_def restartGame_v3_def initPlayer_def)
next
  case False
  then show ?thesis using step_v3_speed[OF assms(1), of a] assms(2) by auto
qed

lemma run_speed_ge1:
  "0 \<le> speedIncreaseRate (CONFIG w) \<Longrightarrow> 1 \<le> currentSpeed (gameState w) \<Longrightarrow>
   1 \<le> currentSpeed (gameState (run ops w))"
proof (induction ops arbitrary: w)
  case Nil
  then show ?case by simp
next
  case (Cons a ops)
  from step_speed_ge1[OF Cons.prems, of a] Cons.prems(1)
  have "0 \<le> speedIncreaseRate (CONFIG (step a w))" "1 \<le> currentSpeed (gameState (step a w))"
    by simp_all
  then show ?case using Cons.IH[of "step a w"] by simp
qed

lemma run_v3_speed_ge1:
  "0 \<le> speedIncreaseRate (CONFIG w) \<Longrightarrow> 1 \<le> currentSpeed (gameState w) \<Longrightarrow>
   1 \<le> currentSpeed (gameState (run_v3 ops w))"
proof (induction ops arbitrary: w)
  case Nil
  then show ?case by simp
next
  case (Cons a ops)
  from step_v3_speed_ge1[OF Cons.prems, of a] Cons.prems(1)
  have "0 \<le> speedIncreaseRate (CONFIG (step_v3 a w))"
    "1 \<le> currentSpeed (gameState (step_v3 a w))"
    by simp_all
  then show ?case using Cons.IH[of "step_v3 a w"] by simp
qed

lemma speed_init [simp]:
  "speedIncreaseRate (CONFIG (init cfg cw ch b c t)) = speedIncreaseRate cfg"
  "currentSpeed (gameState (init cfg cw ch b c t)) = 1"
  by (simp_all add: init_def initPlayer_def)

text \<open>
  Claim C9. With the configured speed increase not negative (it is 0.0005): every event
  of a run other than a restart (the restart button, or play/pause pressed on the
  game-over screen) leaves \<open>currentSpeed\<close> at least as large as it was; collecting a coin
  or a power-up, a dodge, pause, resume and game over leave it unchanged; a restart sets
  it to 1, and in every state reached from \<^verbatim>\<open>init()\<close> it is at least 1, so a restart never
  raises it. Both engine copies.
\<close>

theorem currentSpeed_monotone:
  assumes "0 \<le> speedIncreaseRate (CONFIG w)" and "0 \<le> speedIncreaseRate (CONFIG v)"
    and "0 \<le> speedIncreaseRate cfg"
  shows
   "(a \<noteq> RestartGame \<and> \<not> (a = TogglePlayPause \<and> isGameOver (gameState w)) \<longrightarrow>
       currentSpeed (gameState w) \<le> currentSpeed (gameState (step a w))) \<and>
    (a3 \<noteq> RestartGame \<and> \<not> (a3 = TogglePlayPause \<and> isGameOver (gameState v)) \<longrightarrow>
       currentSpeed (gameState v) \<le> currentSpeed (gameState (step_v3 a3 v))) \<and>
    currentSpeed (gameState (collectCoin k w)) = currentSpeed (gameState w) \<and>
    currentSpeed (gameState (collectPowerUp now p w)) = currentSpeed (gameState w) \<and>
    currentSpeed (gameState (collectPowerUp_v3 now q v)) = currentSpeed (gameState v) \<and>
    currentSpeed (gameState (handleDodge now w)) = currentSpeed (gameState w) \<and>
    currentSpeed (gameState (pauseGame w)) = currentSpeed (gameState w) \<and>
    currentSpeed (gameState (resumeGame w)) = currentSpeed (gameState w) \<and>
    currentSpeed (gameState (gameOver w)) = currentSpeed (gameState w) \<and>
    (isGameOver (gameState w) \<longrightarrow> step TogglePlayPause w = restartGame w) \<and>
    currentSpeed (gameState (step RestartGame w)) = 1 \<and>
    currentSpeed (gameState (step_v3 RestartGame v)) = 1 \<and>
    1 \<le> currentSpeed (gameState (run ops (init cfg cw ch b c t))) \<and>
    1 \<le> currentSpeed (gameState (run_v3 ops3 (init cfg cw ch b c t)))"
proof -
  have r2: "1 \<le> currentSpeed (gameState (run ops (init cfg cw ch b c t)))"
    by (rule run_speed_ge1) (use assms(3) in simp_all)
  have r3: "1 \<le> currentSpeed (gameState (run_v3 ops3 (init cfg cw ch b c t)))"
    by (rule run_v3_speed_ge1) (use assms(3) in simp_all)
  show ?thesis
    using step_speed[OF assms(1), of a] step_v3_speed[OF assms(2), of a3] r2 r3
    by (simp add: prim_defs pauseGame_def resumeGame_def restartGame_def restartGame_v3_def
          initPlayer_def togglePlayPause_def)
qed


theorem currentSpeed_monotone_witness:
  "currentSpeed (gameState started) = 1 \<and>
   currentSpeed (gameState (step (Frame 16) started)) = 2001 / 2000 \<and>
   currentSpeed (gameState started) \<le> currentSpeed (gameState (step (Frame 16) started)) \<and>
   currentSpeed (gameState (step RestartGame started)) = 1"
proof -
  have r: "0 \<le> speedIncreaseRate (CONFIG started)" "0 \<le> speedIncreaseRate (CONFIG started_v3)"
    "0 \<le> speedIncreaseRate CONFIG_v2"
    by code_simp+
  have e: "currentSpeed (gameState started) = 1"
    "currentSpeed (gameState (step (Frame 16) started)) = 2001 / 2000"
    by code_simp+
  have n: "Frame 16 \<noteq> (RestartGame :: powerUpType op)"
    "Frame 16 \<noteq> (TogglePlayPause :: powerUpType op)"
    by simp_all
  from currentSpeed_monotone [OF r, where a = "Frame 16" and ?a3.0 = "Frame 16"
      and k = "coinAt 0 0 30" and now = 0 and p = "powerUpAt 0 0 40 SHIELD"
      and q = "powerUpAt 0 0 38 NITRO" and ops = "[]" and ?ops3.0 = "[]"
      and cw = 400 and ch = 600 and b = 0 and c = 0 and t = 0]
  have "currentSpeed (gameState started) \<le> currentSpeed (gameState (step (Frame 16) started))"
    and "currentSpeed (gameState (step RestartGame started)) = 1"
    using n by blast+
  with e show ?thesis by simp
qed


subsection \<open>Difficulty level\<close>



















































subsection \<open>Game over inside a frame\<close>

text \<open>
  Claim C1 against the code. In \<open>crashWorld\<close> the enemy loop detects an unshielded
  collision and calls \<^verbatim>\<open>gameOver()\<close>, which records 50 as the top score and adds the 0
  coins of the run to the stored total. The \<^verbatim>\<open>return\<close> that follows leaves only
  \<^verbatim>\<open>updateEnemies\<close>: the same call of \<^verbatim>\<open>update\<close> goes on to move and collect the coin
  (10 coins, 100 points) and to add the per-frame point, ending with 151 points and 10
  coins in a state that is game over. Both engine copies.
\<close>

theorem update_runs_on_after_gameOver:
  "isPlaying (gameState crashWorld) \<and> \<not> isPaused (gameState crashWorld) \<and>
   \<not> hasShield (gameState crashWorld) \<and>
   score (gameState crashWorld) = 50 \<and> gameState.coins (gameState crashWorld) = 0 \<and>
   topScore (gameState crashWorld) = 0 \<and> \<not> isGameOver (gameState crashWorld) \<and>
   isGameOver (gameState (update 1000 crashWorld)) \<and>
   \<not> isPlaying (gameState (update 1000 crashWorld)) \<and>
   topScore (gameState (update 1000 crashWorld)) = 50 \<and>
   hydraTotalCoins (update 1000 crashWorld) = 0 \<and>
   coins (update 1000 crashWorld) = [] \<and>
   gameState.coins (gameState (update 1000 crashWorld)) = 10 \<and>
   score (gameState (update 1000 crashWorld)) = 151 \<and>
   isGameOver (gameState (update_v3 1000 crashWorld_v3)) \<and>
   topScore (gameState (update_v3 1000 crashWorld_v3)) = 50 \<and>
   coins (update_v3 1000 crashWorld_v3) = [] \<and>
   gameState.coins (gameState (update_v3 1000 crashWorld_v3)) = 10 \<and>
   score (gameState (update_v3 1000 crashWorld_v3)) = 151"
  by code_simp

theorem update_runs_on_after_gameOver_witness:
  "score (gameState (update 1000 crashWorld)) \<noteq> topScore (gameState (update 1000 crashWorld)) \<and>
   gameState.coins (gameState (update 1000 crashWorld)) \<noteq> hydraTotalCoins (update 1000 crashWorld)"
  using update_runs_on_after_gameOver by simp

end
